theory Spec2Isabelle
  imports Complex_Main
begin

section \<open>Python values\<close>

text \<open>
  The SDK moves decoded JSON documents around as plain Python objects. A float is kept
  as its exact rational value, or one of the non-finite values that \<^verbatim>\<open>json.loads\<close>
  accepts; \<^verbatim>\<open>-0.0\<close> and \<^verbatim>\<open>0.0\<close> are both \<open>Finite 0\<close> (they are equal and both falsy).
  A NaN carries the identity of its float object, because inside a list or a dict
  \<^verbatim>\<open>==\<close> takes identical elements as equal: every NaN that one \<^verbatim>\<open>json\<close> module
  decodes is the same object. A dict is an association list in insertion order; a
  decoded document has no duplicate keys.
\<close>

datatype pyfloat = Finite rat | PosInf | NegInf | NaN nat

datatype json =
    JNull
  | JBool bool
  | JInt int
  | JFloat pyfloat
  | JStr string
  | JArr "json list"
  | JObj "(string \<times> json) list"

type_synonym pydict = "(string \<times> json) list"

text \<open>
  The exceptions that occur. \<open>is_Exception\<close> says whether the class derives from
  \<^verbatim>\<open>Exception\<close>, which is what \<^verbatim>\<open>except Exception\<close> catches; \<^verbatim>\<open>SystemExit\<close>,
  \<^verbatim>\<open>KeyboardInterrupt\<close> and classes a user derives from \<^verbatim>\<open>BaseException\<close> directly
  do not.
\<close>

datatype exn =
    AttributeError
  | KeyError
  | IndexError
  | TypeError
  | ValueError
  | JSONDecodeError
  | OverflowError
  | ConnectionError string
  | TimeoutError rat
  | RuntimeError string
  | SystemExit
  | KeyboardInterrupt
  | OtherException string
  | OtherBaseException string

fun is_Exception :: "exn \<Rightarrow> bool" where
  "is_Exception SystemExit = False"
| "is_Exception KeyboardInterrupt = False"
| "is_Exception (OtherBaseException _) = False"
| "is_Exception _ = True"

text \<open>Truth value testing, as \<^verbatim>\<open>if x\<close>, \<^verbatim>\<open>not x\<close> and \<^verbatim>\<open>x or y\<close> apply it.\<close>

fun truthy :: "json \<Rightarrow> bool" where
  "truthy JNull = False"
| "truthy (JBool b) = b"
| "truthy (JInt i) = (i \<noteq> 0)"
| "truthy (JFloat f) = (f \<noteq> Finite 0)"
| "truthy (JStr s) = (s \<noteq> [])"
| "truthy (JArr xs) = (xs \<noteq> [])"
| "truthy (JObj kvs) = (kvs \<noteq> [])"

text \<open>\<^verbatim>\<open>a or b\<close> where evaluating \<open>b\<close> cannot raise.\<close>

definition py_or :: "json \<Rightarrow> json \<Rightarrow> json" where
  "py_or a b = (if truthy a then a else b)"

text \<open>\<^verbatim>\<open>d.get(k, default)\<close> and \<^verbatim>\<open>d.get(k)\<close> on a dict.\<close>

definition dict_get_default :: "pydict \<Rightarrow> string \<Rightarrow> json \<Rightarrow> json" where
  "dict_get_default d k dflt = (case map_of d k of None \<Rightarrow> dflt | Some v \<Rightarrow> v)"

definition dict_get :: "pydict \<Rightarrow> string \<Rightarrow> json" where
  "dict_get d k = dict_get_default d k JNull"

text \<open>
  \<^verbatim>\<open>x.get(k, default)\<close> on an arbitrary object: only a dict has the method, every
  other JSON value raises \<^verbatim>\<open>AttributeError\<close>.
\<close>

fun py_get_default :: "json \<Rightarrow> string \<Rightarrow> json \<Rightarrow> exn + json" where
  "py_get_default (JObj d) k dflt = Inr (dict_get_default d k dflt)"
| "py_get_default _ k dflt = Inl AttributeError"

definition py_get :: "json \<Rightarrow> string \<Rightarrow> exn + json" where
  "py_get x k = py_get_default x k JNull"

text \<open>
  \<^verbatim>\<open>str(x)\<close>: a string is returned as it is; the text of any other value is Python's
  own formatting, taken as the parameter \<open>fmt\<close>.
\<close>

fun py_str :: "(json \<Rightarrow> string) \<Rightarrow> json \<Rightarrow> string" where
  "py_str fmt (JStr s) = s"
| "py_str fmt v = fmt v"

text \<open>
  \<^verbatim>\<open>a == b\<close>. Booleans, integers and floats compare by numeric value
  (\<^verbatim>\<open>True == 1 == 1.0\<close>) and a NaN equals nothing, itself included. Lists compare
  element by element and dicts key by key regardless of order; there two elements are
  equal when they are the same object or compare equal, and \<open>identical_nan\<close> is the one
  case where the same object does not compare equal anyway.
\<close>

fun num_of :: "json \<Rightarrow> pyfloat option" where
  "num_of (JBool b) = Some (Finite (if b then 1 else 0))"
| "num_of (JInt i) = Some (Finite (of_int i))"
| "num_of (JFloat f) = Some f"
| "num_of _ = None"

fun float_eq :: "pyfloat \<Rightarrow> pyfloat \<Rightarrow> bool" where
  "float_eq (NaN m) b = False"
| "float_eq a b = (a = b)"

fun identical_nan :: "json \<Rightarrow> json \<Rightarrow> bool" where
  "identical_nan (JFloat (NaN m)) (JFloat (NaN n)) = (m = n)"
| "identical_nan a b = False"

fun py_eq :: "json \<Rightarrow> json \<Rightarrow> bool" where
  "py_eq JNull b = (b = JNull)"
| "py_eq (JStr s) b = (b = JStr s)"
| "py_eq (JArr xs) b =
     (case b of
        JArr ys \<Rightarrow> list_all2 (\<lambda>x y. identical_nan x y \<or> py_eq x y) xs ys
      | _ \<Rightarrow> False)"
| "py_eq (JObj d) b =
     (case b of
        JObj e \<Rightarrow> length d = length e \<and>
          list_all (\<lambda>(k, v). case map_of e k of
                                None \<Rightarrow> False
                              | Some w \<Rightarrow> identical_nan v w \<or> py_eq v w) d
      | _ \<Rightarrow> False)"
| "py_eq a b =
     (case (num_of a, num_of b) of (Some x, Some y) \<Rightarrow> float_eq x y | _ \<Rightarrow> False)"

section \<open>Frame parser (the line loop of \<^verbatim>\<open>SSEStream._run\<close>)\<close>

text \<open>The accumulator \<^verbatim>\<open>current = {"data": [], "id": None, "type": None}\<close>.\<close>

record raw =
  raw_data :: "string list"
  raw_id :: "string option"
  raw_type :: "string option"

definition new_raw :: raw where
  "new_raw = \<lparr>raw_data = [], raw_id = None, raw_type = None\<rparr>"

text \<open>\<^verbatim>\<open>s.find(c)\<close>: the index of the first occurrence, or \<open>-1\<close>.\<close>

fun find_from :: "char \<Rightarrow> string \<Rightarrow> nat \<Rightarrow> int" where
  "find_from c [] i = -1"
| "find_from c (x # xs) i = (if x = c then int i else find_from c xs (Suc i))"

definition py_find :: "string \<Rightarrow> char \<Rightarrow> int" where
  "py_find s c = find_from c s 0"

text \<open>\<^verbatim>\<open>s.lstrip(" ")\<close> removes every leading space character.\<close>

definition lstrip_space :: "string \<Rightarrow> string" where
  "lstrip_space s = dropWhile (\<lambda>c. c = CHR '' '') s"

text \<open>
  One iteration of the loop body for a line that is not \<^verbatim>\<open>None\<close>, after the
  closed check: the result is the frame handed to \<^verbatim>\<open>_process_raw\<close> (if any) and the
  accumulator afterwards.
\<close>

definition feed_line :: "raw \<Rightarrow> string \<Rightarrow> raw option \<times> raw" where
  "feed_line current line =
     (if take 1 line = '':'' then (None, current)
      else if line = [] then
        ((if raw_data current \<noteq> [] then Some current else None), new_raw)
      else
        let colon = py_find line CHR '':'' in
        if colon = -1 then (None, current)
        else
          let field = take (nat colon) line;
              val = lstrip_space (drop (nat (colon + 1)) line)
          in if field = ''id'' then (None, current\<lparr>raw_id := Some val\<rparr>)
             else if field = ''event'' then (None, current\<lparr>raw_type := Some val\<rparr>)
             else if field = ''data'' then
               (None, current\<lparr>raw_data := raw_data current @ [val]\<rparr>)
             else (None, current))"

section \<open>Event dispatcher (\<^verbatim>\<open>on\<close>, \<^verbatim>\<open>off\<close>, \<^verbatim>\<open>_emit\<close>)\<close>

text \<open>
  A listener is a function object, and the number that stands for it in the registry is
  its identity, which is all that \<^verbatim>\<open>off\<close> compares. \<open>callables\<close> gives the behaviour
  of every function object: called with the event, it may change the state of the
  program around it, may call \<^verbatim>\<open>on\<close> and \<^verbatim>\<open>off\<close> of the stream that is dispatching
  (the calls it made, in order), and then either returns (\<open>None\<close>) or raises
  (\<open>Some e\<close>). The registry \<^verbatim>\<open>_handlers\<close> maps an event type to the list of the
  listeners registered for it, which \<^verbatim>\<open>on\<close> and \<^verbatim>\<open>off\<close> change in place.
\<close>

datatype reg_op = On string nat | Off string nat

type_synonym 's listener = "pydict \<Rightarrow> 's \<Rightarrow> exn option \<times> 's \<times> reg_op list"

type_synonym 's callables = "nat \<Rightarrow> 's listener"

type_synonym handlers = "string \<Rightarrow> nat list option"

text \<open>\<^verbatim>\<open>self._handlers.get(t, [])\<close> for a string key.\<close>

definition handlers_for :: "handlers \<Rightarrow> string \<Rightarrow> nat list" where
  "handlers_for hs t = (case hs t of None \<Rightarrow> [] | Some l \<Rightarrow> l)"

text \<open>\<^verbatim>\<open>self._handlers.setdefault(event_type, []).append(handler)\<close>\<close>

definition on :: "handlers \<Rightarrow> string \<Rightarrow> nat \<Rightarrow> handlers" where
  "on hs event_type handler = hs(event_type \<mapsto> handlers_for hs event_type @ [handler])"

text \<open>
  \<^verbatim>\<open>off\<close>: the first occurrence is removed from the list of the type; a type or a
  listener that is not there changes nothing.
\<close>

definition off :: "handlers \<Rightarrow> string \<Rightarrow> nat \<Rightarrow> handlers" where
  "off hs event_type handler =
     (case hs event_type of
        None \<Rightarrow> hs
      | Some l \<Rightarrow> hs(event_type \<mapsto> remove1 handler l))"

fun apply_op :: "handlers \<Rightarrow> reg_op \<Rightarrow> handlers" where
  "apply_op hs (On event_type handler) = on hs event_type handler"
| "apply_op hs (Off event_type handler) = off hs event_type handler"

definition apply_ops :: "reg_op list \<Rightarrow> handlers \<Rightarrow> handlers" where
  "apply_ops ops hs = foldl apply_op hs ops"

text \<open>
  The key \<^verbatim>\<open>_process_raw\<close> passes to \<^verbatim>\<open>self._handlers.get(event_type, [])\<close> is
  whatever the document carried as its type: a list or a dict is unhashable and the
  lookup raises \<^verbatim>\<open>TypeError\<close>; any other value that is not a string equals no key
  (\<open>None\<close>).
\<close>

fun handlers_key :: "json \<Rightarrow> exn + string option" where
  "handlers_key (JStr t) = Inr (Some t)"
| "handlers_key (JArr _) = Inl TypeError"
| "handlers_key (JObj _) = Inl TypeError"
| "handlers_key _ = Inr None"

text \<open>
  One \<^verbatim>\<open>for handler in ...: try: handler(event) except Exception: pass\<close> loop over
  the list registered for \<open>key\<close>, from position \<open>i\<close> on. The loop walks the list object
  itself: what a listener appends is still reached, and when a listener removes an
  entry at or before the current position the entries behind it move up and the next
  one is passed over. An exception that is not an \<^verbatim>\<open>Exception\<close> leaves the loop. A
  loop that never ends has no result (\<open>None\<close>).
\<close>

partial_function (option) for_each_handler ::
  "'s callables \<Rightarrow> string \<Rightarrow> nat \<Rightarrow> pydict \<Rightarrow> handlers \<Rightarrow> 's \<Rightarrow>
   (exn option \<times> handlers \<times> 's) option" where
  "for_each_handler fns key i event hs s =
     (if i < length (handlers_for hs key) then
        (case fns (handlers_for hs key ! i) event s of
           (r, s', ops) \<Rightarrow>
             (case r of
                None \<Rightarrow> for_each_handler fns key (Suc i) event (apply_ops ops hs) s'
              | Some e \<Rightarrow>
                  if is_Exception e
                  then for_each_handler fns key (Suc i) event (apply_ops ops hs) s'
                  else Some (Some e, apply_ops ops hs, s')))
      else Some (None, hs, s))"

definition emit ::
  "'s callables \<Rightarrow> handlers \<Rightarrow> json \<Rightarrow> pydict \<Rightarrow> 's \<Rightarrow> (exn option \<times> handlers \<times> 's) option"
  where
  "emit fns hs event_type event s =
     (case handlers_key event_type of
        Inl e \<Rightarrow> Some (Some e, hs, s)
      | Inr key \<Rightarrow>
          (case (case key of
                   None \<Rightarrow> Some (None, hs, s)
                 | Some t \<Rightarrow> for_each_handler fns t 0 event hs s) of
             None \<Rightarrow> None
           | Some (Some e, hs', s') \<Rightarrow> Some (Some e, hs', s')
           | Some (None, hs', s') \<Rightarrow> for_each_handler fns ''*'' 0 event hs' s'))"

text \<open>
  What such a loop comes to when no listener touches the registry: the functions of a
  fixed list are called one after the other.
\<close>

fun call_in_turn :: "'s listener list \<Rightarrow> pydict \<Rightarrow> 's \<Rightarrow> exn option \<times> 's" where
  "call_in_turn [] event s = (None, s)"
| "call_in_turn (f # rest) event s =
     (case f event s of
        (None, s', ops) \<Rightarrow> call_in_turn rest event s'
      | (Some e, s', ops) \<Rightarrow>
          if is_Exception e then call_in_turn rest event s' else (Some e, s'))"


section \<open>Event decoder (\<^verbatim>\<open>_process_raw\<close>)\<close>

text \<open>\<^verbatim>\<open>sep.join(xs)\<close>\<close>

fun py_join :: "string \<Rightarrow> string list \<Rightarrow> string" where
  "py_join sep [] = []"
| "py_join sep [x] = x"
| "py_join sep (x # y # ys) = x @ sep @ py_join sep (y # ys)"

definition newline :: string where
  "newline = [CHR 0x0A]"

definition opt_str :: "string option \<Rightarrow> json" where
  "opt_str x = (case x of None \<Rightarrow> JNull | Some s \<Rightarrow> JStr s)"

text \<open>
  The event dict built inside the \<^verbatim>\<open>try\<close> from the parsed document. The first
  operation is \<^verbatim>\<open>parsed.get("data")\<close>, which raises unless the document is a dict.
\<close>

definition build_event :: "raw \<Rightarrow> json \<Rightarrow> exn + pydict" where
  "build_event raw parsed =
     (case parsed of
        JObj p \<Rightarrow>
          let data_field = py_or (dict_get p ''data'') parsed in
          Inr [(''id'', py_or (opt_str (raw_id raw)) (dict_get_default p ''id'' (JStr ''''))),
               (''type'', py_or (py_or (dict_get p ''type'') (opt_str (raw_type raw)))
                                (JStr ''unknown'')),
               (''ts'', dict_get_default p ''ts'' (JStr '''')),
               (''data'', data_field),
               (''smartSpaceId'', dict_get p ''smartSpaceId''),
               (''runId'', py_or (dict_get p ''runId'')
                                 (case data_field of JObj d \<Rightarrow> dict_get d ''runId''
                                  | _ \<Rightarrow> JNull)),
               (''entityId'', dict_get p ''entityId''),
               (''agentEntityId'', dict_get p ''agentEntityId''),
               (''seq'', dict_get p ''seq'')]
      | _ \<Rightarrow> Inl AttributeError)"

text \<open>\<^verbatim>\<open>try: ... except (json.JSONDecodeError, Exception): pass\<close>\<close>

definition swallow :: "exn option \<times> 's \<Rightarrow> exn option \<times> 's" where
  "swallow r =
     (case r of
        (Some e, s) \<Rightarrow> if is_Exception e then (None, s) else (Some e, s)
      | (None, s) \<Rightarrow> (None, s))"

text \<open>
  \<^verbatim>\<open>json.loads\<close> is the parameter \<open>json_loads\<close>; \<open>None\<close> stands for its raising
  \<^verbatim>\<open>JSONDecodeError\<close>. The result is the exception that leaves \<^verbatim>\<open>_process_raw\<close>, if
  any, with the registry and the state as the listeners left them; there is none
  when the dispatch never ends.
\<close>

definition process_raw ::
  "(string \<Rightarrow> json option) \<Rightarrow> 's callables \<Rightarrow> handlers \<Rightarrow> raw \<Rightarrow> 's \<Rightarrow>
   (exn option \<times> handlers \<times> 's) option" where
  "process_raw json_loads fns hs raw s =
     (let data_str = py_join newline (raw_data raw) in
      if data_str = [] then Some (None, hs, s)
      else
        case json_loads data_str of
          None \<Rightarrow> Some (None, hs, s)
        | Some parsed \<Rightarrow>
            (case build_event raw parsed of
               Inl e \<Rightarrow> Some (swallow (Some e, hs, s))
             | Inr event \<Rightarrow>
                 map_option swallow (emit fns hs (dict_get event ''type'') event s)))"

section \<open>Reconnecting connection (\<^verbatim>\<open>SSEStream\<close>)\<close>

text \<open>
  Where the background thread of a stream stands. \<open>Connecting\<close>: inside
  \<^verbatim>\<open>requests.get\<close>, the \<^verbatim>\<open>while not self._closed\<close> test passed. \<open>Reading\<close>: inside
  the line loop, with the accumulator. \<open>Sleeping\<close>: inside \<^verbatim>\<open>time.sleep\<close>.
  \<open>Returned\<close>: \<^verbatim>\<open>_run\<close> has returned. \<open>Died\<close>: an exception left \<^verbatim>\<open>_run\<close>.
\<close>

datatype phase = NotStarted | Connecting | Reading raw | Sleeping | Returned | Died exn

text \<open>
  The delays are floats, as annotated and as every caller passes them, kept as exact
  rationals. \<open>sleeps\<close> is not a field of the class: it logs the arguments of the
  \<^verbatim>\<open>time.sleep\<close> calls the thread has made.
\<close>

record 's stream =
  url :: string
  headers :: "(string \<times> string) list"
  reconnect :: bool
  reconnect_delay :: rat
  max_reconnect_delay :: rat
  on_open :: "('s \<Rightarrow> exn option \<times> 's) option"
  on_error :: "(exn \<Rightarrow> 's \<Rightarrow> exn option \<times> 's) option"
  on_close :: "('s \<Rightarrow> exn option \<times> 's) option"
  handlers :: handlers
  stream_closed :: bool
  reconnect_attempts :: nat
  thread :: phase
  sleeps :: "rat list"

text \<open>\<^verbatim>\<open>d[k] = v\<close> on a dict in insertion order.\<close>

fun dict_set :: "(string \<times> 'v) list \<Rightarrow> string \<Rightarrow> 'v \<Rightarrow> (string \<times> 'v) list" where
  "dict_set [] k v = [(k, v)]"
| "dict_set ((k', v') # d) k v = (if k' = k then (k, v) # d else (k', v') # dict_set d k v)"

text \<open>\<^verbatim>\<open>SSEStream.__init__\<close>, with its defaults as the caller leaves them out.\<close>

definition SSEStream ::
  "string \<Rightarrow> (string \<times> string) list \<Rightarrow> bool \<Rightarrow> rat \<Rightarrow> rat \<Rightarrow>
   ('s \<Rightarrow> exn option \<times> 's) option \<Rightarrow> (exn \<Rightarrow> 's \<Rightarrow> exn option \<times> 's) option \<Rightarrow>
   ('s \<Rightarrow> exn option \<times> 's) option \<Rightarrow> 's stream" where
  "SSEStream u hdrs rc delay max_delay opn err cls =
     \<lparr>url = u,
      headers = dict_set (dict_set hdrs ''Accept'' ''text/event-stream'')
                  ''Cache-Control'' ''no-cache'',
      reconnect = rc,
      reconnect_delay = delay,
      max_reconnect_delay = max_delay,
      on_open = opn,
      on_error = err,
      on_close = cls,
      handlers = Map.empty,
      stream_closed = False,
      reconnect_attempts = 0,
      thread = NotStarted,
      sleeps = []\<rparr>"

definition default_reconnect :: bool where
  "default_reconnect = True"

definition default_reconnect_delay :: rat where
  "default_reconnect_delay = 1"

definition default_max_reconnect_delay :: rat where
  "default_max_reconnect_delay = 30"

text \<open>\<^verbatim>\<open>stream.on(event_type, handler)\<close>\<close>

definition stream_on :: "'s stream \<Rightarrow> string \<Rightarrow> nat \<Rightarrow> 's stream" where
  "stream_on st event_type handler = st\<lparr>handlers := on (handlers st) event_type handler\<rparr>"

text \<open>
  \<^verbatim>\<open>close()\<close>, called from outside the thread: the callback's exception, if any, goes
  to the caller.
\<close>

definition close :: "'s stream \<Rightarrow> 's \<Rightarrow> exn option \<times> 's stream \<times> 's" where
  "close st s =
     (let st' = st\<lparr>stream_closed := True\<rparr>
      in case on_close st' of
           None \<Rightarrow> (None, st', s)
         | Some f \<Rightarrow> (case f s of (r, s') \<Rightarrow> (r, st', s')))"

text \<open>The test \<^verbatim>\<open>while not self._closed\<close> at the top of the loop.\<close>

definition loop_top :: "'s stream \<Rightarrow> 's stream" where
  "loop_top st = st\<lparr>thread := (if stream_closed st then Returned else Connecting)\<rparr>"

text \<open>\<^verbatim>\<open>start()\<close>: the thread begins \<^verbatim>\<open>_run\<close>.\<close>

definition start :: "'s stream \<Rightarrow> 's stream" where
  "start st = loop_top st"

text \<open>
  \<^verbatim>\<open>2 ** k\<close> is an int. Multiplying the float delay by it converts it to a float first,
  which raises \<^verbatim>\<open>OverflowError\<close> from \<^verbatim>\<open>2 ** 1024\<close> on; below that the conversion
  and the product by a power of two are exact. A product beyond the largest float is
  \<^verbatim>\<open>inf\<close>, and the minimum with the finite maximal delay is then that delay, as for
  the exact product.
\<close>

definition pow2_as_float :: "nat \<Rightarrow> exn + rat" where
  "pow2_as_float k = (if k < 1024 then Inr (2 ^ k) else Inl OverflowError)"

definition backoff_delay :: "'s stream \<Rightarrow> exn + rat" where
  "backoff_delay st =
     (case pow2_as_float (reconnect_attempts st - 1) of
        Inl e \<Rightarrow> Inl e
      | Inr p \<Rightarrow> Inr (min (reconnect_delay st * p) (max_reconnect_delay st)))"

text \<open>
  The \<^verbatim>\<open>except Exception as exc\<close> block. An exception that is not an \<^verbatim>\<open>Exception\<close>
  is not caught; one raised inside the block (by the error callback, by the delay
  computation, or by \<^verbatim>\<open>time.sleep\<close> on a negative delay) leaves \<^verbatim>\<open>_run\<close>.
\<close>

definition handle_exception :: "exn \<Rightarrow> 's stream \<times> 's \<Rightarrow> 's stream \<times> 's" where
  "handle_exception exc p =
     (case p of (st, s) \<Rightarrow>
        (if \<not> is_Exception exc then (st\<lparr>thread := Died exc\<rparr>, s)
         else if stream_closed st then (st\<lparr>thread := Returned\<rparr>, s)
         else
           (case (case on_error st of None \<Rightarrow> (None, s) | Some f \<Rightarrow> f exc s) of
              (Some e, s') \<Rightarrow> (st\<lparr>thread := Died e\<rparr>, s')
            | (None, s') \<Rightarrow>
                (if \<not> reconnect st then (st\<lparr>thread := Returned\<rparr>, s')
                 else
                   (let st1 = st\<lparr>reconnect_attempts := reconnect_attempts st + 1\<rparr>
                    in (case backoff_delay st1 of
                          Inl e \<Rightarrow> (st1\<lparr>thread := Died e\<rparr>, s')
                        | Inr delay \<Rightarrow>
                            (if delay < 0 then (st1\<lparr>thread := Died ValueError\<rparr>, s')
                             else (st1\<lparr>thread := Sleeping,
                                       sleeps := sleeps st1 @ [delay]\<rparr>, s'))))))))"

text \<open>
  What the network and the clock do to the thread. \<open>ConnectFails\<close>: \<^verbatim>\<open>requests.get\<close>
  raised, or the response was not ok and the code raised \<^verbatim>\<open>ConnectionError\<close>.
  \<open>ConnectOk\<close>: an ok response. \<open>Line\<close>: \<^verbatim>\<open>iter_lines\<close> yielded. \<open>ReadFails\<close>: it
  raised. \<open>EndOfStream\<close>: it is exhausted. \<open>Slept\<close>: \<^verbatim>\<open>time.sleep\<close> returned.
\<close>

datatype net =
    ConnectFails exn
  | ConnectOk
  | Line "string option"
  | ReadFails exn
  | EndOfStream
  | Slept

text \<open>
  One step of \<^verbatim>\<open>_run\<close>. An input that does not fit the phase of the thread changes
  nothing. A step has no result when the dispatch of a frame never ends.
\<close>

definition run_step ::
  "(string \<Rightarrow> json option) \<Rightarrow> 's callables \<Rightarrow> net \<Rightarrow> 's stream \<times> 's \<Rightarrow>
   ('s stream \<times> 's) option" where
  "run_step json_loads fns input p =
     (case p of (st, s) \<Rightarrow>
        (case (thread st, input) of
           (Connecting, ConnectFails exc) \<Rightarrow> Some (handle_exception exc (st, s))
         | (Connecting, ConnectOk) \<Rightarrow>
             (let st0 = st\<lparr>reconnect_attempts := 0\<rparr>
              in (case (case on_open st0 of None \<Rightarrow> (None, s) | Some f \<Rightarrow> f s) of
                    (Some e, s') \<Rightarrow> Some (handle_exception e (st0, s'))
                  | (None, s') \<Rightarrow> Some (st0\<lparr>thread := Reading new_raw\<rparr>, s')))
         | (Reading current, Line raw_line) \<Rightarrow>
             (if stream_closed st then Some (st\<lparr>thread := Returned\<rparr>, s)
              else
                (case raw_line of
                   None \<Rightarrow> Some (st, s)
                 | Some line \<Rightarrow>
                     (case feed_line current line of
                        (None, current') \<Rightarrow> Some (st\<lparr>thread := Reading current'\<rparr>, s)
                      | (Some frame, current') \<Rightarrow>
                          (case process_raw json_loads fns (handlers st) frame s of
                             None \<Rightarrow> None
                           | Some (Some e, hs', s') \<Rightarrow>
                               Some (handle_exception e (st\<lparr>handlers := hs'\<rparr>, s'))
                           | Some (None, hs', s') \<Rightarrow>
                               Some (st\<lparr>handlers := hs', thread := Reading current'\<rparr>,
                                     s')))))
         | (Reading current, ReadFails exc) \<Rightarrow> Some (handle_exception exc (st, s))
         | (Reading current, EndOfStream) \<Rightarrow> Some (loop_top st, s)
         | (Sleeping, Slept) \<Rightarrow> Some (loop_top st, s)
         | _ \<Rightarrow> Some (st, s)))"

fun run_steps ::
  "(string \<Rightarrow> json option) \<Rightarrow> 's callables \<Rightarrow> net list \<Rightarrow> 's stream \<times> 's \<Rightarrow>
   ('s stream \<times> 's) option" where
  "run_steps json_loads fns [] p = Some p"
| "run_steps json_loads fns (input # inputs) p =
     (case run_step json_loads fns input p of
        None \<Rightarrow> None
      | Some p' \<Rightarrow> run_steps json_loads fns inputs p')"

section \<open>REST collaborator (\<^verbatim>\<open>auth.py\<close>, \<^verbatim>\<open>http.py\<close>, \<^verbatim>\<open>MessagesResource.send\<close>)\<close>

record HttpClient =
  base_url :: string
  secret_key :: "string option"
  public_key :: "string option"
  jwt :: "string option"

text \<open>\<^verbatim>\<open>if x:\<close> on an optional string.\<close>

definition str_truthy :: "string option \<Rightarrow> bool" where
  "str_truthy x = (case x of None \<Rightarrow> False | Some s \<Rightarrow> s \<noteq> [])"

definition build_auth_headers ::
  "string option \<Rightarrow> string option \<Rightarrow> string option \<Rightarrow> (string \<times> string) list" where
  "build_auth_headers sk pk tok =
     (if str_truthy sk then dict_set [] ''x-secret-key'' (the sk)
      else if str_truthy pk then
        (let hdrs = dict_set [] ''x-public-key'' (the pk)
         in if str_truthy tok then dict_set hdrs ''Authorization'' (''Bearer '' @ the tok)
            else hdrs)
      else [])"

definition get_auth_headers :: "HttpClient \<Rightarrow> (string \<times> string) list" where
  "get_auth_headers http = build_auth_headers (secret_key http) (public_key http) (jwt http)"

text \<open>\<^verbatim>\<open>build_url(path)\<close>, called without query parameters.\<close>

definition build_url :: "HttpClient \<Rightarrow> string \<Rightarrow> string" where
  "build_url http path = base_url http @ path"

text \<open>
  \<^verbatim>\<open>send\<close>. The POST itself is the parameter \<open>post\<close>, from a path and a body to the
  decoded response or the exception the request raised.
\<close>

definition send ::
  "(string \<Rightarrow> json \<Rightarrow> exn + json) \<Rightarrow> string \<Rightarrow> string \<Rightarrow> string option \<Rightarrow> pydict option \<Rightarrow>
   string option \<Rightarrow> bool option \<Rightarrow> exn + json" where
  "send post space_id content entity_id metadata role trigger_agents =
     (let body0 = [(''content'', JStr content)];
          body1 = (case entity_id of None \<Rightarrow> body0
                   | Some e \<Rightarrow> dict_set body0 ''entityId'' (JStr e));
          body2 = (case metadata of None \<Rightarrow> body1
                   | Some m \<Rightarrow> dict_set body1 ''metadata'' (JObj m));
          body3 = (case role of None \<Rightarrow> body2
                   | Some r \<Rightarrow> dict_set body2 ''role'' (JStr r));
          body4 = (case trigger_agents of None \<Rightarrow> body3
                   | Some t \<Rightarrow> dict_set body3 ''triggerAgents'' (JBool t))
      in post (''/api/smart-spaces/'' @ space_id @ ''/messages'') (JObj body4))"

section \<open>Correlated wait (\<^verbatim>\<open>MessagesResource.send_and_wait\<close>)\<close>

text \<open>
  The listeners of a wait are closures that change the variables of the wait and make
  no call on a stream: from the event and the variables to what they raise, if
  anything, and the variables afterwards.
\<close>

type_synonym 's closure = "pydict \<Rightarrow> 's \<Rightarrow> exn option \<times> 's"

text \<open>
  The variables the listeners close over. \<open>settled\<close> is the flag \<^verbatim>\<open>_settled[0]\<close>;
  every listener that reads or writes it holds the lock for its whole body, so the
  listeners of the two stream threads run one after the other, in some order.
\<close>

record corr =
  text_parts :: "json list"
  tool_calls :: pydict
  done_event :: bool
  error_holder :: pydict
  settled :: bool

definition new_corr :: corr where
  "new_corr = \<lparr>text_parts = [], tool_calls = [], done_event = False, error_holder = [],
               settled = False\<rparr>"

text \<open>The object a first \<^verbatim>\<open>.get\<close> is called on: anything but a dict raises.\<close>

fun as_dict :: "json \<Rightarrow> exn + pydict" where
  "as_dict (JObj d) = Inr d"
| "as_dict _ = Inl AttributeError"

definition finish :: "corr \<Rightarrow> corr" where
  "finish c = (if \<not> settled c then c\<lparr>settled := True, done_event := True\<rparr> else c)"

definition on_error_event :: "(json \<Rightarrow> string) \<Rightarrow> corr closure" where
  "on_error_event fmt event c =
     (if \<not> settled c then
        (let c1 = c\<lparr>settled := True\<rparr>
         in case as_dict (py_or (dict_get event ''data'') (JObj [])) of
              Inl e \<Rightarrow> (Some e, c1)
            | Inr d \<Rightarrow>
                (None, c1\<lparr>error_holder := dict_set (error_holder c1) ''error''
                             (JStr (py_str fmt (dict_get_default d ''error''
                                                  (JStr ''Stream error'')))),
                          done_event := True\<rparr>))
      else (None, c))"

definition on_space_message :: "corr closure" where
  "on_space_message event c =
     (case as_dict (py_or (dict_get event ''data'') (JObj [])) of
        Inl e \<Rightarrow> (Some e, c)
      | Inr d \<Rightarrow>
          (case as_dict (py_or (dict_get d ''message'') (JObj [])) of
             Inl e \<Rightarrow> (Some e, c)
           | Inr msg \<Rightarrow>
               (let role = dict_get_default msg ''role'' (JStr '''')
                in if \<not> (py_eq role (JStr ''assistant'') \<or> py_eq role (JStr ''agent''))
                   then (None, c)
                   else
                     (let content = dict_get msg ''content''
                      in if truthy content
                         then (None, c\<lparr>text_parts := text_parts c @ [content]\<rparr>)
                         else (None, c)))))"

definition on_agent_inactive :: "json \<Rightarrow> corr closure" where
  "on_agent_inactive run_id event c =
     (if truthy (dict_get event ''runId'') then
        (if py_eq (dict_get event ''runId'') run_id then (None, finish c) else (None, c))
      else
        (case as_dict (py_or (dict_get event ''data'') (JObj [])) of
           Inl e \<Rightarrow> (Some e, c)
         | Inr d \<Rightarrow>
             (if py_eq (dict_get d ''runId'') run_id then (None, finish c) else (None, c))))"

definition on_tool_started :: "(json \<Rightarrow> string) \<Rightarrow> corr closure" where
  "on_tool_started fmt event c =
     (case as_dict (py_or (dict_get event ''data'') (JObj [])) of
        Inl e \<Rightarrow> (Some e, c)
      | Inr d \<Rightarrow>
          (let call_id = py_str fmt (py_or (py_or (dict_get d ''streamId'')
                                                 (dict_get d ''toolCallId'')) (JStr ''''))
           in if call_id \<noteq> [] then
                (None, c\<lparr>tool_calls := dict_set (tool_calls c) call_id
                   (JObj [(''id'', JStr call_id),
                          (''name'', JStr (py_str fmt (dict_get_default d ''toolName''
                                                         (JStr '''')))),
                          (''input'', JNull),
                          (''output'', JNull)])\<rparr>)
              else (None, c)))"

text \<open>\<^verbatim>\<open>record[k] = v\<close> on one of the tool-call records, which are dicts.\<close>

fun set_field :: "json \<Rightarrow> string \<Rightarrow> json \<Rightarrow> json" where
  "set_field (JObj entry) k v = JObj (dict_set entry k v)"
| "set_field x k v = x"

definition on_tool_done :: "(json \<Rightarrow> string) \<Rightarrow> corr closure" where
  "on_tool_done fmt event c =
     (case as_dict (py_or (dict_get event ''data'') (JObj [])) of
        Inl e \<Rightarrow> (Some e, c)
      | Inr d \<Rightarrow>
          (let call_id = py_str fmt (py_or (py_or (dict_get d ''streamId'')
                                                 (dict_get d ''toolCallId'')) (JStr ''''))
           in case map_of (tool_calls c) call_id of
                None \<Rightarrow> (None, c)
              | Some entry \<Rightarrow>
                  (None, c\<lparr>tool_calls := dict_set (tool_calls c) call_id
                     (set_field (set_field entry ''input'' (dict_get d ''input''))
                        ''output'' (py_or (dict_get d ''result'') (dict_get d ''output'')))\<rparr>)))"

definition on_run_completed :: "corr closure" where
  "on_run_completed event c = (None, finish c)"

definition on_run_failed :: "(json \<Rightarrow> string) \<Rightarrow> corr closure" where
  "on_run_failed fmt event c =
     (if \<not> settled c then
        (let c1 = c\<lparr>settled := True\<rparr>
         in case as_dict (py_or (dict_get event ''data'') (JObj [])) of
              Inl e \<Rightarrow> (Some e, c1)
            | Inr d \<Rightarrow>
                (None, c1\<lparr>error_holder := dict_set (error_holder c1) ''error''
                             (JStr (py_str fmt (dict_get_default d ''errorMessage''
                                                  (JStr ''Run failed'')))),
                          done_event := True\<rparr>))
      else (None, c))"

text \<open>
  The seven closures are seven function objects; none of them calls \<^verbatim>\<open>on\<close> or
  \<^verbatim>\<open>off\<close>. No other function object is ever registered on the streams of a wait.
\<close>

definition no_ops :: "'s closure \<Rightarrow> 's listener" where
  "no_ops f event s = (case f event s of (r, s') \<Rightarrow> (r, s', []))"

definition wait_callables :: "(json \<Rightarrow> string) \<Rightarrow> json \<Rightarrow> corr callables" where
  "wait_callables fmt run_id n =
     no_ops (if n = 0 then on_space_message
             else if n = 1 then on_agent_inactive run_id
             else if n = 2 then on_error_event fmt
             else if n = 3 then on_tool_started fmt
             else if n = 4 then on_tool_done fmt
             else if n = 5 then on_run_completed
             else if n = 6 then on_run_failed fmt
             else (\<lambda>event c. (None, c)))"

text \<open>
  The two streams as \<^verbatim>\<open>send_and_wait\<close> constructs them and registers its listeners
  on them. The run id is formatted into the path of the run stream.
\<close>

definition space_stream_for :: "HttpClient \<Rightarrow> string \<Rightarrow> corr stream" where
  "space_stream_for http space_id =
     stream_on (stream_on (stream_on
       (SSEStream (build_url http (''/api/smart-spaces/'' @ space_id @ ''/stream''))
          (get_auth_headers http) False default_reconnect_delay
          default_max_reconnect_delay None None None)
       ''space.message'' 0)
       ''agent.inactive'' 1)
       ''error'' 2"

definition run_stream_for ::
  "(json \<Rightarrow> string) \<Rightarrow> HttpClient \<Rightarrow> json \<Rightarrow> corr stream" where
  "run_stream_for fmt http run_id =
     stream_on (stream_on (stream_on (stream_on (stream_on
       (SSEStream (build_url http (''/api/runs/'' @ py_str fmt run_id @ ''/stream''))
          (get_auth_headers http) False default_reconnect_delay
          default_max_reconnect_delay None None None)
       ''tool.started'' 3)
       ''tool.done'' 4)
       ''run.completed'' 5)
       ''run.failed'' 6)
       ''error'' 2"

text \<open>
  What happens while the caller waits: a sequence of inputs, each to the thread of one
  of the two streams. The sequence ends when \<^verbatim>\<open>done_event.wait\<close> returns, either
  because the event is set or because the deadline has passed.
\<close>

datatype feed = SpaceFeed | RunFeed

definition deliver ::
  "(string \<Rightarrow> json option) \<Rightarrow> corr callables \<Rightarrow> feed \<times> net \<Rightarrow>
   corr stream \<times> corr stream \<times> corr \<Rightarrow> (corr stream \<times> corr stream \<times> corr) option" where
  "deliver json_loads fns x p =
     (case p of (space_stream, run_stream, c) \<Rightarrow>
        (case x of
           (SpaceFeed, input) \<Rightarrow>
             (case run_step json_loads fns input (space_stream, c) of
                None \<Rightarrow> None
              | Some (space_stream', c') \<Rightarrow> Some (space_stream', run_stream, c'))
         | (RunFeed, input) \<Rightarrow>
             (case run_step json_loads fns input (run_stream, c) of
                None \<Rightarrow> None
              | Some (run_stream', c') \<Rightarrow> Some (space_stream, run_stream', c'))))"

fun deliver_all ::
  "(string \<Rightarrow> json option) \<Rightarrow> corr callables \<Rightarrow> (feed \<times> net) list \<Rightarrow>
   corr stream \<times> corr stream \<times> corr \<Rightarrow> (corr stream \<times> corr stream \<times> corr) option" where
  "deliver_all json_loads fns [] p = Some p"
| "deliver_all json_loads fns (x # script) p =
     (case deliver json_loads fns x p of
        None \<Rightarrow> None
      | Some p' \<Rightarrow> deliver_all json_loads fns script p')"

text \<open>\<^verbatim>\<open>"\n".join(text_parts)\<close>: a part that is not a string raises \<^verbatim>\<open>TypeError\<close>.\<close>

fun strings_of :: "json list \<Rightarrow> exn + string list" where
  "strings_of [] = Inr []"
| "strings_of (JStr s # rest) =
     (case strings_of rest of Inl e \<Rightarrow> Inl e | Inr ss \<Rightarrow> Inr (s # ss))"
| "strings_of (x # rest) = Inl TypeError"

text \<open>The body of the \<^verbatim>\<open>try\<close>, once \<^verbatim>\<open>done_event.wait\<close> has returned.\<close>

definition wait_outcome :: "(json \<Rightarrow> string) \<Rightarrow> json \<Rightarrow> rat \<Rightarrow> corr \<Rightarrow> exn + json" where
  "wait_outcome fmt run_id timeout c =
     (if \<not> done_event c then Inl (TimeoutError timeout)
      else
        (case map_of (error_holder c) ''error'' of
           Some msg \<Rightarrow> Inl (RuntimeError (py_str fmt msg))
         | None \<Rightarrow>
             (case strings_of (text_parts c) of
                Inl e \<Rightarrow> Inl e
              | Inr parts \<Rightarrow>
                  Inr (JObj [(''text'', JStr (py_join newline parts)),
                             (''tool_calls'', JArr (map snd (tool_calls c))),
                             (''run'', JObj [(''id'', run_id)])]))))"

text \<open>
  What a call leaves behind: what it returned or raised, the two stream objects if it
  constructed them, and the variables of the wait if it got that far.
\<close>

record wait_result =
  outcome :: "exn + json"
  streams :: "(corr stream \<times> corr stream) option"
  correlation :: "corr option"

text \<open>
  Lines 65 to 166: from the run id to the end of the \<^verbatim>\<open>finally\<close> block. An exception
  raised by a \<^verbatim>\<open>close\<close> replaces the outcome of the \<^verbatim>\<open>try\<close>. The call has a result
  (\<open>Some\<close>) when it returns or raises.
\<close>

definition wait_for_run ::
  "(json \<Rightarrow> string) \<Rightarrow> (string \<Rightarrow> json option) \<Rightarrow> HttpClient \<Rightarrow> string \<Rightarrow> json \<Rightarrow> rat \<Rightarrow>
   (feed \<times> net) list \<Rightarrow> wait_result option" where
  "wait_for_run fmt json_loads http space_id run_id timeout script =
     (case deliver_all json_loads (wait_callables fmt run_id) script
             (start (space_stream_for http space_id),
              start (run_stream_for fmt http run_id),
              new_corr) of
        None \<Rightarrow> None
      | Some (space_stream, run_stream, c) \<Rightarrow>
          (let out = wait_outcome fmt run_id timeout c
           in case close space_stream c of
                (Some e, space_stream', c') \<Rightarrow>
                  Some \<lparr>outcome = Inl e, streams = Some (space_stream', run_stream),
                        correlation = Some c'\<rparr>
              | (None, space_stream', c') \<Rightarrow>
                  (case close run_stream c' of
                     (Some e, run_stream', c'') \<Rightarrow>
                       Some \<lparr>outcome = Inl e, streams = Some (space_stream', run_stream'),
                             correlation = Some c''\<rparr>
                   | (None, run_stream', c'') \<Rightarrow>
                       Some \<lparr>outcome = out, streams = Some (space_stream', run_stream'),
                             correlation = Some c''\<rparr>)))"

text \<open>\<^verbatim>\<open>runs[0]\<close> on a truthy value and \<^verbatim>\<open>x["runId"]\<close>.\<close>

fun py_first :: "json \<Rightarrow> exn + json" where
  "py_first (JArr (x # xs)) = Inr x"
| "py_first (JArr []) = Inl IndexError"
| "py_first (JStr (c # cs)) = Inr (JStr [c])"
| "py_first (JStr []) = Inl IndexError"
| "py_first (JObj d) = Inl KeyError"
| "py_first _ = Inl TypeError"

fun py_item :: "json \<Rightarrow> string \<Rightarrow> exn + json" where
  "py_item (JObj d) k = (case map_of d k of None \<Rightarrow> Inl KeyError | Some v \<Rightarrow> Inr v)"
| "py_item _ k = Inl TypeError"

definition default_timeout :: rat where
  "default_timeout = 30"

definition raised :: "exn \<Rightarrow> wait_result" where
  "raised e = \<lparr>outcome = Inl e, streams = None, correlation = None\<rparr>"

definition send_and_wait ::
  "(json \<Rightarrow> string) \<Rightarrow> (string \<Rightarrow> json option) \<Rightarrow> (string \<Rightarrow> json \<Rightarrow> exn + json) \<Rightarrow>
   HttpClient \<Rightarrow> string \<Rightarrow> string \<Rightarrow> string option \<Rightarrow> pydict option \<Rightarrow> rat \<Rightarrow>
   (feed \<times> net) list \<Rightarrow> wait_result option" where
  "send_and_wait fmt json_loads post http space_id content entity_id metadata timeout script =
     (case send post space_id content entity_id metadata None None of
        Inl e \<Rightarrow> Some (raised e)
      | Inr result \<Rightarrow>
          (case py_get_default result ''runs'' (JArr []) of
             Inl e \<Rightarrow> Some (raised e)
           | Inr runs \<Rightarrow>
               (if \<not> truthy runs then
                  Some \<lparr>outcome = Inr (JObj [(''text'', JStr ''''), (''tool_calls'', JArr []),
                                             (''run'', JNull)]),
                        streams = None, correlation = None\<rparr>
                else
                  (case py_first runs of
                     Inl e \<Rightarrow> Some (raised e)
                   | Inr run0 \<Rightarrow>
                       (case py_item run0 ''runId'' of
                          Inl e \<Rightarrow> Some (raised e)
                        | Inr run_id \<Rightarrow>
                            wait_for_run fmt json_loads http space_id run_id timeout
                              script)))))"

subsection \<open>Sequences of settling events\<close>

text \<open>
  The four listeners that can settle a wait, and the states a sequence of their
  invocations goes through: the state before the first call, then the state after
  each call. \<open>flips\<close> counts the places where a flag goes from false to true.
\<close>

datatype settling = RunCompleted | RunFailed | AgentInactive | StreamError

fun settling_listener :: "(json \<Rightarrow> string) \<Rightarrow> json \<Rightarrow> settling \<Rightarrow> corr closure" where
  "settling_listener fmt run_id RunCompleted = on_run_completed"
| "settling_listener fmt run_id RunFailed = on_run_failed fmt"
| "settling_listener fmt run_id AgentInactive = on_agent_inactive run_id"
| "settling_listener fmt run_id StreamError = on_error_event fmt"

fun invocations ::
  "(json \<Rightarrow> string) \<Rightarrow> json \<Rightarrow> (settling \<times> pydict) list \<Rightarrow> corr \<Rightarrow> corr list" where
  "invocations fmt run_id [] c = [c]"
| "invocations fmt run_id ((k, event) # rest) c =
     c # invocations fmt run_id rest (snd (settling_listener fmt run_id k event c))"

fun flips :: "bool list \<Rightarrow> nat" where
  "flips (a # b # rest) = (if \<not> a \<and> b then 1 else 0) + flips (b # rest)"
| "flips _ = 0"

subsection \<open>What the thread of a stream leaves alone\<close>

text \<open>
  The fields \<^verbatim>\<open>_run\<close> only reads: the callbacks, the reconnect switch, the URL,
  and the closed flag, which only \<^verbatim>\<open>close\<close> sets.
\<close>

definition same_config :: "'s stream \<Rightarrow> 's stream \<Rightarrow> bool" where
  "same_config a b \<longleftrightarrow>
     on_open a = on_open b \<and> on_error a = on_error b \<and> on_close a = on_close b \<and>
     reconnect a = reconnect b \<and> url a = url b \<and>
     stream_closed a = stream_closed b"

subsection \<open>What a dispatch leaves behind\<close>



subsection \<open>Sample listeners and a sample parser, for concrete runs\<close>

text \<open>
  Ten function objects that keep a log of calls as the state. Each records its name;
  0 and 2 then raise an \<^verbatim>\<open>Exception\<close>, 4 raises \<^verbatim>\<open>SystemExit\<close>, 5 removes itself
  from the type \<^verbatim>\<open>t\<close>, 9 registers itself once more for the type \<^verbatim>\<open>t\<close>, and the
  others just return.
\<close>

definition sample_callables :: "string list callables" where
  "sample_callables n event s =
     (if n = 0 then (Some (OtherException ''x''), s @ [''first''], [])
      else if n = 1 then (None, s @ [''second''], [])
      else if n = 2 then (Some KeyError, s @ [''wild1''], [])
      else if n = 3 then (None, s @ [''wild2''], [])
      else if n = 4 then (Some SystemExit, s @ [''first''], [])
      else if n = 5 then (None, s @ [''a''], [Off ''t'' 5])
      else if n = 6 then (None, s @ [''b''], [])
      else if n = 7 then (None, s @ [''c''], [])
      else if n = 8 then (None, s @ [''w''], [])
      else (None, s @ [''again''], [On ''t'' 9]))"

definition sample_handlers :: handlers where
  "sample_handlers = on (on (on (on Map.empty ''t'' 0) ''*'' 2) ''t'' 1) ''*'' 3"




text \<open>
  A parser that knows the handful of documents the concrete runs send (the text
  between the quotes is the JSON text itself), and a formatter
  for values that are not strings.
\<close>

definition sample_loads :: "string \<Rightarrow> json option" where
  "sample_loads s =
     (if s = ''{}'' then Some (JObj [])
      else if s = ''null'' then Some JNull
      else if s = ''{\"type\":\"run.failed\",\"data\":{\"errorMessage\":\"boom\"}}'' then
        Some (JObj [(''type'', JStr ''run.failed''),
                    (''data'', JObj [(''errorMessage'', JStr ''boom'')])])
      else if s = ''{\"type\":\"run.completed\",\"runId\":\"r1\"}'' then
        Some (JObj [(''type'', JStr ''run.completed''), (''runId'', JStr ''r1'')])
      else if s = ''{\"type\":\"run.completed\",\"runId\":\"r2\"}'' then
        Some (JObj [(''type'', JStr ''run.completed''), (''runId'', JStr ''r2'')])
      else if s = ''{\"type\":\"agent.inactive\",\"runId\":\"r2\"}'' then
        Some (JObj [(''type'', JStr ''agent.inactive''), (''runId'', JStr ''r2'')])
      else if s = ''{\"type\":\"error\",\"runId\":\"r2\"}'' then
        Some (JObj [(''type'', JStr ''error''), (''runId'', JStr ''r2'')])
      else None)"

definition sample_fmt :: "json \<Rightarrow> string" where
  "sample_fmt v = ''<value>''"

definition sample_http :: HttpClient where
  "sample_http = \<lparr>base_url = ''http://gw'', secret_key = None, public_key = Some ''pk'',
                  jwt = None\<rparr>"

text \<open>Two collaborators: a send that starts no run, and one that starts two.\<close>

definition post_no_runs :: "string \<Rightarrow> json \<Rightarrow> exn + json" where
  "post_no_runs path body = Inr (JObj [(''message'', JObj []), (''runs'', JArr [])])"

definition post_two_runs :: "string \<Rightarrow> json \<Rightarrow> exn + json" where
  "post_two_runs path body =
     Inr (JObj [(''runs'', JArr [JObj [(''runId'', JStr ''r1'')],
                                 JObj [(''runId'', JStr ''r2'')]])])"

section \<open>Field lines\<close>

lemma find_from_absent: "c \<notin> set f \<Longrightarrow> find_from c (f @ c # r) i = int (i + length f)"
  by (induction f arbitrary: i) auto

lemma py_find_first: "c \<notin> set f \<Longrightarrow> py_find (f @ c # r) c = int (length f)"
  by (simp add: py_find_def find_from_absent)

lemma lstrip_space_spaces:
  "v = [] \<or> hd v \<noteq> CHR '' '' \<Longrightarrow> lstrip_space (replicate n CHR '' '' @ v) = v"
  unfolding lstrip_space_def
  by (induction n) (auto simp: dropWhile_eq_self_iff)

text \<open>
  C3, as the spec has it: a field line is split at the first colon and at most one
  leading space is removed from the value, so \<^verbatim>\<open>data:  x\<close> gives the value \<^verbatim>\<open> x\<close>.
  The code removes every leading space: the value it stores is \<^verbatim>\<open>x\<close>.
\<close>

theorem two_spaces_counterexample:
  "raw_data (snd (feed_line new_raw ''data:  x'')) = [''x''] \<and>
   raw_data (snd (feed_line new_raw ''data:  x'')) \<noteq> ['' x'']"
  by (simp add: feed_line_def py_find_def lstrip_space_def new_raw_def Let_def)

text \<open>
  C3, amended: a field line \<open>f:v\<close> with any number \<open>n\<close> of spaces between the first
  colon and a value \<open>v\<close> that does not begin with a space is split at the first colon,
  and all \<open>n\<close> spaces are removed: the fields \<^verbatim>\<open>id\<close>, \<^verbatim>\<open>event\<close> and \<^verbatim>\<open>data\<close> store
  exactly \<open>v\<close>, any other field changes nothing, and no frame is handed on.
\<close>

theorem field_line_strips_all_spaces:
  assumes "CHR '':'' \<notin> set f" and "f \<noteq> []" and "v = [] \<or> hd v \<noteq> CHR '' ''"
  shows "feed_line current (f @ CHR '':'' # replicate n CHR '' '' @ v) =
     (None,
      if f = ''id'' then current\<lparr>raw_id := Some v\<rparr>
      else if f = ''event'' then current\<lparr>raw_type := Some v\<rparr>
      else if f = ''data'' then current\<lparr>raw_data := raw_data current @ [v]\<rparr>
      else current)"
proof -
  let ?line = "f @ CHR '':'' # replicate n CHR '' '' @ v"
  from assms(1,2) have nc: "take 1 ?line \<noteq> '':''"
    by (cases f) auto
  have ne: "?line \<noteq> []" by simp
  have colon: "py_find ?line CHR '':'' = int (length f)"
    using assms(1) by (rule py_find_first)
  have fld: "take (nat (int (length f))) ?line = f" by simp
  have val: "lstrip_space (drop (nat (int (length f) + 1)) ?line) = v"
    using assms(3) by (simp add: nat_add_distrib lstrip_space_spaces)
  show ?thesis
    unfolding feed_line_def using nc ne colon fld val
    by (simp add: Let_def)
qed

theorem field_line_strips_all_spaces_witness:
  "feed_line new_raw ''data:  x'' = (None, new_raw\<lparr>raw_data := [''x'']\<rparr>)"
  using field_line_strips_all_spaces [of "''data''" "''x''" new_raw 2]
  by (simp add: new_raw_def numeral_2_eq_2)

section \<open>Dispatch\<close>


text \<open>
  When the listeners registered for a key make no call on the registry, the loop over
  the live list is the loop over the list as it stood, and it ends.
\<close>

lemma for_each_handler_quiet:
  assumes "\<forall>n\<in>set (handlers_for hs key). \<forall>s. snd (snd (fns n event s)) = []"
  shows "for_each_handler fns key i event hs s =
           Some (case call_in_turn (map fns (drop i (handlers_for hs key))) event s of
                   (r, s') \<Rightarrow> (r, hs, s'))"
proof (induction "length (handlers_for hs key) - i" arbitrary: i s)
  case 0
  then show ?case by (subst for_each_handler.simps) simp
next
  case (Suc k)
  then have lt: "i < length (handlers_for hs key)" by simp
  let ?h = "handlers_for hs key ! i"
  obtain r s' ops where f: "fns ?h event s = (r, s', ops)" by (cases "fns ?h event s")
  from lt have "?h \<in> set (handlers_for hs key)" by simp
  with assms f have ops: "ops = []" by (metis snd_conv)
  have k: "k = length (handlers_for hs key) - Suc i" using Suc.hyps(2) by simp
  have d: "drop i (handlers_for hs key) = ?h # drop (Suc i) (handlers_for hs key)"
    using lt by (simp add: Cons_nth_drop_Suc)
  show ?case
    using Suc.hyps(1) [OF k, of s'] lt f ops d
    by (subst for_each_handler.simps) (simp add: apply_ops_def split: option.splits)
qed






section \<open>Decoding\<close>

text \<open>
  A frame whose joined data parses as a JSON object always yields an event, and that
  event is what the dispatcher receives.
\<close>

lemma process_raw_object:
  assumes "py_join newline (raw_data raw) \<noteq> []"
    and "json_loads (py_join newline (raw_data raw)) = Some (JObj p)"
  shows "\<exists>event. build_event raw (JObj p) = Inr event \<and>
           process_raw json_loads fns hs raw s =
             map_option swallow (emit fns hs (dict_get event ''type'') event s)"
  using assms by (simp add: process_raw_def build_event_def Let_def)

text \<open>
  C4, as the spec has it: when the parsed document has a \<^verbatim>\<open>data\<close> field, its value is
  the payload, also when that value is null, an empty object, an empty string, false or
  0. The code takes \<^verbatim>\<open>parsed.get("data") or parsed\<close>: for each of these five values
  the payload is the whole document.
\<close>

theorem falsy_data_counterexample:
  "build_event new_raw (JObj [(''data'', JInt 0)]) =
     Inr [(''id'', JStr ''''), (''type'', JStr ''unknown''), (''ts'', JStr ''''),
          (''data'', JObj [(''data'', JInt 0)]),
          (''smartSpaceId'', JNull), (''runId'', JNull), (''entityId'', JNull),
          (''agentEntityId'', JNull), (''seq'', JNull)]
   \<and> build_event new_raw (JObj [(''data'', JNull)]) =
     Inr [(''id'', JStr ''''), (''type'', JStr ''unknown''), (''ts'', JStr ''''),
          (''data'', JObj [(''data'', JNull)]),
          (''smartSpaceId'', JNull), (''runId'', JNull), (''entityId'', JNull),
          (''agentEntityId'', JNull), (''seq'', JNull)]
   \<and> build_event new_raw (JObj [(''data'', JObj [])]) =
     Inr [(''id'', JStr ''''), (''type'', JStr ''unknown''), (''ts'', JStr ''''),
          (''data'', JObj [(''data'', JObj [])]),
          (''smartSpaceId'', JNull), (''runId'', JNull), (''entityId'', JNull),
          (''agentEntityId'', JNull), (''seq'', JNull)]
   \<and> build_event new_raw (JObj [(''data'', JStr '''')]) =
     Inr [(''id'', JStr ''''), (''type'', JStr ''unknown''), (''ts'', JStr ''''),
          (''data'', JObj [(''data'', JStr '''')]),
          (''smartSpaceId'', JNull), (''runId'', JNull), (''entityId'', JNull),
          (''agentEntityId'', JNull), (''seq'', JNull)]
   \<and> build_event new_raw (JObj [(''data'', JBool False)]) =
     Inr [(''id'', JStr ''''), (''type'', JStr ''unknown''), (''ts'', JStr ''''),
          (''data'', JObj [(''data'', JBool False)]),
          (''smartSpaceId'', JNull), (''runId'', JNull), (''entityId'', JNull),
          (''agentEntityId'', JNull), (''seq'', JNull)]"
  by (simp add: build_event_def new_raw_def dict_get_def dict_get_default_def py_or_def
      opt_str_def)

text \<open>
  C4, amended: for every frame whose data parses as a JSON object, an event is built,
  and its payload is the value of the document's \<^verbatim>\<open>data\<close> field when that value is
  truthy (not null, false, 0, an empty string, an empty list or an empty object);
  otherwise, also when the field is absent, the payload is the whole parsed document.
\<close>

theorem payload_is_truthy_data_or_document:
  "\<exists>event. build_event raw (JObj p) = Inr event \<and>
     dict_get event ''data'' =
       (if truthy (dict_get p ''data'') then dict_get p ''data'' else JObj p)"
  by (simp add: build_event_def Let_def dict_get_def dict_get_default_def py_or_def)

text \<open>
  C7: for every frame handed to the decoder, every registry and every state: if the
  joined data string is empty, or if it is not valid JSON, \<open>process_raw\<close> returns
  normally, and the registry and the state are the ones it was given, whatever the
  registered listeners would do: no event is produced and no listener is called.
\<close>

theorem decode_failure_is_silent:
  "(py_join newline (raw_data raw) = [] \<longrightarrow>
      process_raw json_loads fns hs raw s = Some (None, hs, s)) \<and>
   (json_loads (py_join newline (raw_data raw)) = None \<longrightarrow>
      process_raw json_loads fns hs raw s = Some (None, hs, s))"
  by (simp add: process_raw_def Let_def)

theorem decode_failure_is_silent_witness:
  "py_join newline (raw_data (new_raw\<lparr>raw_data := ['''']\<rparr>)) = [] \<and>
   process_raw sample_loads sample_callables sample_handlers
     (new_raw\<lparr>raw_data := ['''']\<rparr>) [] = Some (None, sample_handlers, []) \<and>
   sample_loads (py_join newline (raw_data (new_raw\<lparr>raw_data := [''{'', ''oops'']\<rparr>))) = None \<and>
   process_raw sample_loads sample_callables sample_handlers
     (new_raw\<lparr>raw_data := [''{'', ''oops'']\<rparr>) [] = Some (None, sample_handlers, [])"
  using decode_failure_is_silent
      [of "new_raw\<lparr>raw_data := ['''']\<rparr>" sample_loads sample_callables sample_handlers
         "[]"]
    decode_failure_is_silent
      [of "new_raw\<lparr>raw_data := [''{'', ''oops'']\<rparr>" sample_loads sample_callables
         sample_handlers "[]"]
  by (simp add: new_raw_def newline_def sample_loads_def)

section \<open>Reconnection\<close>

lemma run_steps_append:
  "run_steps jl fns (xs @ ys) p =
     (case run_steps jl fns xs p of None \<Rightarrow> None | Some p' \<Rightarrow> run_steps jl fns ys p')"
  by (induction xs arbitrary: p) (simp_all split: option.splits)

lemma failure_then_sleep:
  assumes "reconnect st" and "\<not> stream_closed st" and "thread st = Connecting"
    and "is_Exception e"
    and "\<forall>f. on_error st = Some f \<longrightarrow> (\<forall>e s. fst (f e s) = None)"
    and "0 \<le> reconnect_delay st" and "0 \<le> max_reconnect_delay st"
    and "reconnect_attempts st < 1024"
  shows "\<exists>s'. run_steps jl fns [ConnectFails e, Slept] (st, s) =
           Some (st\<lparr>reconnect_attempts := Suc (reconnect_attempts st),
                    sleeps := sleeps st @
                      [min (reconnect_delay st * 2 ^ reconnect_attempts st)
                         (max_reconnect_delay st)]\<rparr>, s')"
proof -
  obtain r s' where cb: "(case on_error st of None \<Rightarrow> (None, s) | Some f \<Rightarrow> f e s) = (r, s')"
    by (cases "case on_error st of None \<Rightarrow> (None, s) | Some f \<Rightarrow> f e s")
  have r: "r = None"
  proof (cases "on_error st")
    case None
    with cb show ?thesis by simp
  next
    case (Some f)
    with assms(5) have "fst (f e s) = None" by simp
    with cb Some show ?thesis by simp
  qed
  have nonneg: "\<not> min (reconnect_delay st * 2 ^ reconnect_attempts st) (max_reconnect_delay st) < 0"
  proof -
    have "0 \<le> reconnect_delay st * 2 ^ reconnect_attempts st"
      using assms(6) by (intro mult_nonneg_nonneg) simp_all
    with assms(7) show ?thesis by (simp add: min_def)
  qed
  show ?thesis
    using assms(1-4,8) cb r nonneg
    by (simp add: run_step_def handle_exception_def backoff_delay_def pow2_as_float_def
        loop_top_def Let_def)
qed

text \<open>
  While the attempt counter stays below 1025, a run of failed connection attempts, each
  followed by its sleep, sleeps \<open>min (delay * 2 ^ (n - 1)) max_delay\<close> before attempt
  \<open>n\<close>, counted from the last successful open.
\<close>

lemma failure_cycles:
  assumes "reconnect st" and "\<not> stream_closed st" and "thread st = Connecting"
    and "\<forall>e\<in>set es. is_Exception e"
    and "\<forall>f. on_error st = Some f \<longrightarrow> (\<forall>e s. fst (f e s) = None)"
    and "0 \<le> reconnect_delay st" and "0 \<le> max_reconnect_delay st"
    and "reconnect_attempts st + length es \<le> 1024"
  shows "\<exists>s'. run_steps jl fns (concat (map (\<lambda>e. [ConnectFails e, Slept]) es)) (st, s) =
           Some (st\<lparr>reconnect_attempts := reconnect_attempts st + length es,
               sleeps := sleeps st @
                 map (\<lambda>n. min (reconnect_delay st * 2 ^ (n - 1)) (max_reconnect_delay st))
                   [reconnect_attempts st + 1 ..< reconnect_attempts st + length es + 1]\<rparr>,
               s')"
  using assms
proof (induction es arbitrary: st s)
  case Nil
  then show ?case by simp
next
  case (Cons e es)
  let ?st1 = "st\<lparr>reconnect_attempts := Suc (reconnect_attempts st),
               sleeps := sleeps st @
                 [min (reconnect_delay st * 2 ^ reconnect_attempts st) (max_reconnect_delay st)]\<rparr>"
  from Cons.prems have lt: "reconnect_attempts st < 1024" by simp
  have "\<exists>s'. run_steps jl fns [ConnectFails e, Slept] (st, s) = Some (?st1, s')"
    using Cons.prems(1-3) Cons.prems(5-7) lt Cons.prems(4)
    by (intro failure_then_sleep) simp_all
  then obtain s1 where p: "run_steps jl fns [ConnectFails e, Slept] (st, s) = Some (?st1, s1)"
    by blast
  have "\<exists>s'. run_steps jl fns (concat (map (\<lambda>e. [ConnectFails e, Slept]) es)) (?st1, s1) =
           Some (?st1\<lparr>reconnect_attempts := reconnect_attempts ?st1 + length es,
               sleeps := sleeps ?st1 @
                 map (\<lambda>n. min (reconnect_delay ?st1 * 2 ^ (n - 1)) (max_reconnect_delay ?st1))
                   [reconnect_attempts ?st1 + 1 ..< reconnect_attempts ?st1 + length es + 1]\<rparr>,
               s')"
    using Cons.prems by (intro Cons.IH) simp_all
  then obtain s2 where IH:
    "run_steps jl fns (concat (map (\<lambda>e. [ConnectFails e, Slept]) es)) (?st1, s1) =
           Some (?st1\<lparr>reconnect_attempts := reconnect_attempts ?st1 + length es,
               sleeps := sleeps ?st1 @
                 map (\<lambda>n. min (reconnect_delay ?st1 * 2 ^ (n - 1)) (max_reconnect_delay ?st1))
                   [reconnect_attempts ?st1 + 1 ..< reconnect_attempts ?st1 + length es + 1]\<rparr>,
               s2)"
    by blast
  have upt: "[reconnect_attempts st + 1 ..< reconnect_attempts st + length (e # es) + 1] =
      (reconnect_attempts st + 1) # [reconnect_attempts st + 2 ..< reconnect_attempts st + length es + 2]"
    by (subst upt_rec) simp
  have split: "concat (map (\<lambda>e. [ConnectFails e, Slept]) (e # es)) =
      [ConnectFails e, Slept] @ concat (map (\<lambda>e. [ConnectFails e, Slept]) es)"
    by simp
  show ?case
    unfolding split run_steps_append p
    using IH upt by (intro exI [of _ s2]) simp
qed

text \<open>A successful open sets the attempt counter to 0 before anything else.\<close>

lemma open_resets_attempts:
  assumes "thread st = Connecting"
    and "\<forall>f. on_open st = Some f \<longrightarrow> (\<forall>s. fst (f s) = None)"
  shows "\<exists>s'. run_step jl fns ConnectOk (st, s) =
           Some (st\<lparr>reconnect_attempts := 0, thread := Reading new_raw\<rparr>, s')"
proof (cases "on_open st")
  case None
  with assms(1) show ?thesis by (simp add: run_step_def Let_def)
next
  case (Some f)
  obtain r s' where f: "f s = (r, s')" by (cases "f s")
  with assms(2) Some have "r = None" by (metis fst_conv)
  with assms(1) Some f show ?thesis by (simp add: run_step_def Let_def)
qed

text \<open>
  C5: the sleep before attempt \<open>n\<close> is \<open>min (delay * 2 ^ (n - 1)) max_delay\<close> for
  every \<open>n\<close>. The code computes the power as an int and multiplies the float delay by
  it: at the 1025th failure in a row \<^verbatim>\<open>1.0 * 2 ** 1024\<close> raises \<^verbatim>\<open>OverflowError\<close>
  inside the \<^verbatim>\<open>except\<close> block. A stream built with the defaults and started, whose
  server stays down, has then slept 1024 times; the thread dies instead of sleeping
  30 seconds again, and the stream never reconnects.
\<close>

theorem backoff_overflow_after_1024_failures:
  "\<exists>st' s'. run_steps jl fns
      (concat (map (\<lambda>e. [ConnectFails e, Slept]) (replicate 1024 (ConnectionError ''down'')))
         @ [ConnectFails (ConnectionError ''down'')])
      (start (SSEStream u hdrs True 1 30 None None None), s) = Some (st', s') \<and>
   thread st' = Died OverflowError \<and> length (sleeps st') = 1024"
proof -
  let ?st = "start (SSEStream u hdrs True 1 30 None None None) :: 'a stream"
  let ?es = "replicate 1024 (ConnectionError ''down'')"
  have st: "reconnect ?st" "\<not> stream_closed ?st" "thread ?st = Connecting"
    "on_error ?st = None" "reconnect_attempts ?st = 0" "reconnect_delay ?st = 1"
    "max_reconnect_delay ?st = 30" "sleeps ?st = []"
    by (simp_all add: start_def loop_top_def SSEStream_def)
  have "\<exists>s'. run_steps jl fns (concat (map (\<lambda>e. [ConnectFails e, Slept]) ?es)) (?st, s) =
      Some (?st\<lparr>reconnect_attempts := reconnect_attempts ?st + length ?es,
               sleeps := sleeps ?st @
                 map (\<lambda>n. min (reconnect_delay ?st * 2 ^ (n - 1)) (max_reconnect_delay ?st))
                   [reconnect_attempts ?st + 1 ..< reconnect_attempts ?st + length ?es + 1]\<rparr>,
            s')"
    using st by (intro failure_cycles) simp_all
  then obtain s1 where p:
    "run_steps jl fns (concat (map (\<lambda>e. [ConnectFails e, Slept]) ?es)) (?st, s) =
       Some (?st\<lparr>reconnect_attempts := 1024,
               sleeps := map (\<lambda>n. min (2 ^ (n - 1)) 30) [1 ..< 1025]\<rparr>, s1)"
    using st by auto
  show ?thesis
    unfolding run_steps_append p
    using st
    by (simp add: run_step_def handle_exception_def backoff_delay_def pow2_as_float_def)
qed

section \<open>The correlated wait\<close>

text \<open>Unfolding everything a concrete run goes through.\<close>

lemmas eval_defs =
  send_and_wait_def send_def wait_for_run_def deliver_def run_step_def
  handle_exception_def loop_top_def start_def close_def space_stream_for_def run_stream_for_def
  stream_on_def SSEStream_def on_def off_def handlers_for_def apply_ops_def emit_def
  for_each_handler.simps wait_callables_def no_ops_def process_raw_def build_event_def
  swallow_def feed_line_def py_find_def lstrip_space_def new_raw_def newline_def opt_str_def
  py_or_def dict_get_def dict_get_default_def py_get_def
  on_run_completed_def on_run_failed_def on_agent_inactive_def on_error_event_def
  on_space_message_def on_tool_started_def on_tool_done_def finish_def new_corr_def
  wait_outcome_def raised_def default_timeout_def default_reconnect_delay_def
  default_max_reconnect_delay_def build_url_def get_auth_headers_def build_auth_headers_def
  str_truthy_def sample_loads_def sample_fmt_def sample_http_def post_two_runs_def
  post_no_runs_def Let_def

lemma handle_exception_same_config: "same_config (fst (handle_exception e (st, s))) st"
  by (simp add: same_config_def handle_exception_def Let_def
      split: option.splits prod.splits sum.splits)

lemma same_config_trans: "same_config a b \<Longrightarrow> same_config b c \<Longrightarrow> same_config a c"
  by (simp add: same_config_def)

text \<open>The listeners of a wait make no call on the registry, so every dispatch ends.\<close>

lemma wait_callables_quiet: "snd (snd (wait_callables fmt run_id n event c)) = []"
  by (simp add: wait_callables_def no_ops_def split: prod.splits)

lemma emit_quiet:
  assumes "\<forall>n event s. snd (snd (fns n event s)) = []"
  shows "\<exists>r s'. emit fns hs event_type event s = Some (r, hs, s')"
proof -
  have q: "\<And>key. \<forall>n\<in>set (handlers_for hs key). \<forall>s. snd (snd (fns n event s)) = []"
    using assms by simp
  have l: "\<And>key s. \<exists>r s'. for_each_handler fns key 0 event hs s = Some (r, hs, s')"
  proof -
    fix key s
    show "\<exists>r s'. for_each_handler fns key 0 event hs s = Some (r, hs, s')"
      using for_each_handler_quiet
          [where fns = fns and hs = hs and key = key and event = event and i = 0 and s = s,
           OF q]
      by (simp split: prod.splits)
  qed
  show ?thesis
  proof (cases "handlers_key event_type")
    case (Inl e)
    then show ?thesis by (simp add: emit_def)
  next
    case (Inr key)
    show ?thesis
    proof (cases key)
      case None
      with Inr l [of "''*''" s] show ?thesis by (simp add: emit_def)
    next
      case (Some t)
      from l [of t s] obtain r s1 where
        a: "for_each_handler fns t 0 event hs s = Some (r, hs, s1)" by blast
      show ?thesis
      proof (cases r)
        case None
        with Inr Some a l [of "''*''" s1] show ?thesis by (simp add: emit_def)
      next
        case (Some e)
        with Inr \<open>key = Some t\<close> a show ?thesis by (simp add: emit_def)
      qed
    qed
  qed
qed

lemma process_raw_quiet:
  assumes "\<forall>n event s. snd (snd (fns n event s)) = []"
  shows "\<exists>r s'. process_raw jl fns hs raw s = Some (r, hs, s')"
proof -
  have e: "\<And>t event. \<exists>r s'. map_option swallow (emit fns hs t event s) = Some (r, hs, s')"
  proof -
    fix t event
    from emit_quiet [OF assms, of hs t event s]
    obtain r s' where "emit fns hs t event s = Some (r, hs, s')" by blast
    then show "\<exists>r s'. map_option swallow (emit fns hs t event s) = Some (r, hs, s')"
      by (simp add: swallow_def split: option.splits)
  qed
  show ?thesis
    using e by (simp add: process_raw_def swallow_def Let_def split: option.splits sum.splits)
qed

lemma run_step_quiet:
  assumes "\<forall>n event s. snd (snd (fns n event s)) = []"
  shows "\<exists>st' s'. run_step jl fns input (st, s) = Some (st', s') \<and> same_config st' st"
proof -
  have h: "\<And>e st1 s1. same_config st1 st \<Longrightarrow>
      \<exists>st' s'. Some (handle_exception e (st1, s1)) = Some (st', s') \<and> same_config st' st"
  proof -
    fix e st1 s1
    assume "same_config st1 st"
    with handle_exception_same_config [of e st1 s1]
    have "same_config (fst (handle_exception e (st1, s1))) st"
      by (rule same_config_trans)
    then show "\<exists>st' s'. Some (handle_exception e (st1, s1)) = Some (st', s') \<and>
        same_config st' st"
      by (cases "handle_exception e (st1, s1)") simp
  qed
  have refl: "same_config st st" by (simp add: same_config_def)
  show ?thesis
  proof (cases "thread st")
    case Connecting
    show ?thesis
    proof (cases input)
      case (ConnectFails exc)
      with Connecting h [OF refl, of exc s] show ?thesis by (simp add: run_step_def)
    next
      case ConnectOk
      have c0: "same_config (st\<lparr>reconnect_attempts := 0\<rparr>) st" by (simp add: same_config_def)
      obtain r s' where cb:
        "(case on_open st of None \<Rightarrow> (None, s) | Some f \<Rightarrow> f s) = (r, s')"
        by (cases "case on_open st of None \<Rightarrow> (None, s) | Some f \<Rightarrow> f s")
      show ?thesis
      proof (cases r)
        case None
        with Connecting ConnectOk cb show ?thesis
          by (simp add: run_step_def Let_def same_config_def)
      next
        case (Some e)
        with Connecting ConnectOk cb h [OF c0, of e s'] show ?thesis
          by (simp add: run_step_def Let_def)
      qed
    qed (simp_all add: run_step_def Connecting refl)
  next
    case (Reading current)
    show ?thesis
    proof (cases input)
      case (Line raw_line)
      show ?thesis
      proof (cases "stream_closed st")
        case True
        with Reading Line show ?thesis by (simp add: run_step_def same_config_def)
      next
        case False
        show ?thesis
        proof (cases raw_line)
          case None
          with Reading Line False show ?thesis by (simp add: run_step_def refl)
        next
          case (Some line)
          obtain frame current' where fl: "feed_line current line = (frame, current')"
            by (cases "feed_line current line")
          show ?thesis
          proof (cases frame)
            case None
            with Reading Line False Some fl show ?thesis
              by (simp add: run_step_def same_config_def)
          next
            case (Some fr)
            from process_raw_quiet [OF assms, of jl "handlers st" fr s]
            obtain r s' where pr: "process_raw jl fns (handlers st) fr s = Some (r, handlers st, s')"
              by blast
            show ?thesis
            proof (cases r)
              case None
              with Reading Line False \<open>raw_line = Some line\<close> fl Some pr show ?thesis
                by (simp add: run_step_def same_config_def)
            next
              case (Some e)
              with Reading Line False \<open>raw_line = Some line\<close> fl \<open>frame = Some fr\<close> pr
                h [OF refl, of e s'] show ?thesis
                by (simp add: run_step_def)
            qed
          qed
        qed
      qed
    next
      case (ReadFails exc)
      with Reading h [OF refl, of exc s] show ?thesis by (simp add: run_step_def)
    next
      case EndOfStream
      with Reading show ?thesis by (simp add: run_step_def loop_top_def same_config_def)
    qed (simp_all add: run_step_def Reading refl)
  next
    case Sleeping
    then show ?thesis
      by (cases input) (simp_all add: run_step_def loop_top_def same_config_def)
  qed (simp_all add: run_step_def refl)
qed

lemma deliver_quiet:
  assumes "\<forall>n event s. snd (snd (fns n event s)) = []"
  shows "\<exists>sp' rn' c'. deliver jl fns x (sp, rn, c) = Some (sp', rn', c') \<and>
           same_config sp' sp \<and> same_config rn' rn"
proof (cases x)
  case (Pair which input)
  show ?thesis
  proof (cases which)
    case SpaceFeed
    from run_step_quiet [OF assms, of jl input sp c] obtain st' c' where
      "run_step jl fns input (sp, c) = Some (st', c')" "same_config st' sp" by blast
    with Pair SpaceFeed show ?thesis by (simp add: deliver_def same_config_def)
  next
    case RunFeed
    from run_step_quiet [OF assms, of jl input rn c] obtain st' c' where
      "run_step jl fns input (rn, c) = Some (st', c')" "same_config st' rn" by blast
    with Pair RunFeed show ?thesis by (simp add: deliver_def same_config_def)
  qed
qed

lemma deliver_all_quiet:
  assumes "\<forall>n event s. snd (snd (fns n event s)) = []"
  shows "\<exists>sp' rn' c'. deliver_all jl fns script (sp, rn, c) = Some (sp', rn', c') \<and>
           same_config sp' sp \<and> same_config rn' rn"
proof (induction script arbitrary: sp rn c)
  case Nil
  then show ?case by (simp add: same_config_def)
next
  case (Cons x script)
  from deliver_quiet [OF assms, of jl x sp rn c] obtain sp1 rn1 c1 where
    d: "deliver jl fns x (sp, rn, c) = Some (sp1, rn1, c1)"
    and s: "same_config sp1 sp" "same_config rn1 rn" by blast
  from Cons.IH [of sp1 rn1 c1] obtain sp' rn' c' where
    "deliver_all jl fns script (sp1, rn1, c1) = Some (sp', rn', c')"
    "same_config sp' sp1" "same_config rn' rn1" by blast
  with d s show ?case by (auto intro: same_config_trans)
qed

lemma wait_streams_config:
  "on_close (start (space_stream_for http space_id)) = None"
  "on_close (start (run_stream_for fmt http run_id)) = None"
  "on_error (start (space_stream_for http space_id)) = None"
  "on_error (start (run_stream_for fmt http run_id)) = None"
  "\<not> reconnect (start (space_stream_for http space_id))"
  "\<not> reconnect (start (run_stream_for fmt http run_id))"
  "\<not> stream_closed (start (space_stream_for http space_id))"
  "\<not> stream_closed (start (run_stream_for fmt http run_id))"
  by (simp_all add: start_def loop_top_def space_stream_for_def run_stream_for_def
      stream_on_def SSEStream_def)

text \<open>The wait always comes to an end, and both streams are closed then.\<close>

lemma wait_for_run_result:
  "\<exists>sp rn c.
     deliver_all json_loads (wait_callables fmt run_id) script
       (start (space_stream_for http space_id), start (run_stream_for fmt http run_id),
        new_corr) = Some (sp, rn, c) \<and>
     same_config sp (start (space_stream_for http space_id)) \<and>
     same_config rn (start (run_stream_for fmt http run_id)) \<and>
     wait_for_run fmt json_loads http space_id run_id timeout script =
       Some \<lparr>outcome = wait_outcome fmt run_id timeout c,
             streams = Some (sp\<lparr>stream_closed := True\<rparr>, rn\<lparr>stream_closed := True\<rparr>),
             correlation = Some c\<rparr>"
proof -
  have q: "\<forall>n event s. snd (snd (wait_callables fmt run_id n event s)) = []"
    by (simp add: wait_callables_quiet)
  from deliver_all_quiet [OF q, of json_loads script "start (space_stream_for http space_id)"
      "start (run_stream_for fmt http run_id)" new_corr]
  obtain sp rn c where d: "deliver_all json_loads (wait_callables fmt run_id) script
       (start (space_stream_for http space_id), start (run_stream_for fmt http run_id),
        new_corr) = Some (sp, rn, c)"
    and s: "same_config sp (start (space_stream_for http space_id))"
      "same_config rn (start (run_stream_for fmt http run_id))" by blast
  from s have "on_close sp = None" "on_close rn = None"
    by (simp_all add: same_config_def wait_streams_config)
  with d s show ?thesis
    by (simp add: wait_for_run_def close_def Let_def)
qed

lemma strings_of_error: "strings_of xs = Inl e \<Longrightarrow> e = TypeError"
  by (induction xs rule: strings_of.induct) (auto split: sum.splits)

text \<open>
  C8: whenever the send returned a run, so that the wait is entered: the call ends, with
  both stream objects closed, whatever happened while it waited and whatever it
  returns or raises. If the event was never set when the wait ended (in particular when
  nothing at all arrived), it raises \<^verbatim>\<open>TimeoutError\<close> carrying the timeout; if the event
  was set, it never raises \<^verbatim>\<open>TimeoutError\<close>, and a recorded error is raised as
  \<^verbatim>\<open>RuntimeError\<close>, a different exception. The timeout is a parameter; left out, it
  is \<open>default_timeout\<close>, 30 seconds.
\<close>

theorem every_exit_closes_both_streams:
  assumes "send post space_id content entity_id metadata None None = Inr result"
    and "py_get_default result ''runs'' (JArr []) = Inr runs"
    and "truthy runs"
    and "py_first runs = Inr run0"
    and "py_item run0 ''runId'' = Inr run_id"
  shows "\<exists>sp rn c.
           send_and_wait fmt json_loads post http space_id content entity_id metadata
               timeout script =
             Some \<lparr>outcome = wait_outcome fmt run_id timeout c, streams = Some (sp, rn),
                   correlation = Some c\<rparr> \<and>
           stream_closed sp \<and> stream_closed rn \<and>
           (script = [] \<longrightarrow> c = new_corr) \<and>
           (\<not> done_event c \<longrightarrow> wait_outcome fmt run_id timeout c = Inl (TimeoutError timeout)) \<and>
           (done_event c \<longrightarrow> wait_outcome fmt run_id timeout c \<noteq> Inl (TimeoutError timeout)) \<and>
           (\<forall>msg. done_event c \<and> map_of (error_holder c) ''error'' = Some msg \<longrightarrow>
              wait_outcome fmt run_id timeout c = Inl (RuntimeError (py_str fmt msg)) \<and>
              RuntimeError (py_str fmt msg) \<noteq> TimeoutError timeout)"
proof -
  from wait_for_run_result [of json_loads fmt run_id script http space_id timeout]
  obtain sp rn c where d: "deliver_all json_loads (wait_callables fmt run_id) script
       (start (space_stream_for http space_id), start (run_stream_for fmt http run_id),
        new_corr) = Some (sp, rn, c)"
    and r: "wait_for_run fmt json_loads http space_id run_id timeout script =
       Some \<lparr>outcome = wait_outcome fmt run_id timeout c,
             streams = Some (sp\<lparr>stream_closed := True\<rparr>, rn\<lparr>stream_closed := True\<rparr>),
             correlation = Some c\<rparr>" by blast
  have w: "send_and_wait fmt json_loads post http space_id content entity_id metadata
             timeout script =
           Some \<lparr>outcome = wait_outcome fmt run_id timeout c,
            streams = Some (sp\<lparr>stream_closed := True\<rparr>, rn\<lparr>stream_closed := True\<rparr>),
            correlation = Some c\<rparr>"
    using assms r by (simp add: send_and_wait_def)
  have e: "script = [] \<longrightarrow> c = new_corr"
    using d by auto
  have t: "\<not> done_event c \<longrightarrow> wait_outcome fmt run_id timeout c = Inl (TimeoutError timeout)"
    by (simp add: wait_outcome_def)
  have n: "done_event c \<longrightarrow> wait_outcome fmt run_id timeout c \<noteq> Inl (TimeoutError timeout)"
    by (auto simp: wait_outcome_def split: option.splits sum.splits dest: strings_of_error)
  have f: "\<forall>msg. done_event c \<and> map_of (error_holder c) ''error'' = Some msg \<longrightarrow>
              wait_outcome fmt run_id timeout c = Inl (RuntimeError (py_str fmt msg)) \<and>
              RuntimeError (py_str fmt msg) \<noteq> TimeoutError timeout"
    by (simp add: wait_outcome_def)
  show ?thesis
    using w e t n f by (intro exI [of _ "sp\<lparr>stream_closed := True\<rparr>"]
        exI [of _ "rn\<lparr>stream_closed := True\<rparr>"] exI [of _ c]) simp
qed

theorem every_exit_closes_both_streams_witness:
  "send_and_wait sample_fmt sample_loads post_two_runs sample_http ''s1'' ''hi''
     None None default_timeout [] =
     Some \<lparr>outcome = Inl (TimeoutError 30),
      streams = Some ((start (space_stream_for sample_http ''s1''))
                        \<lparr>stream_closed := True\<rparr>,
                      (start (run_stream_for sample_fmt sample_http (JStr ''r1'')))
                        \<lparr>stream_closed := True\<rparr>),
      correlation = Some new_corr\<rparr> \<and>
   map_option outcome
     (send_and_wait sample_fmt sample_loads post_two_runs sample_http ''s1'' ''hi''
       None None default_timeout
       [(RunFeed, ConnectOk),
        (RunFeed, Line (Some
           ''data: {\"type\":\"run.failed\",\"data\":{\"errorMessage\":\"boom\"}}'')),
        (RunFeed, Line (Some ''''))]) = Some (Inl (RuntimeError ''boom'')) \<and>
   map_option (\<lambda>r. map_option (\<lambda>(sp, rn). (stream_closed sp, stream_closed rn)) (streams r))
     (send_and_wait sample_fmt sample_loads post_two_runs sample_http ''s1'' ''hi''
       None None default_timeout
       [(RunFeed, ConnectOk),
        (RunFeed, Line (Some
           ''data: {\"type\":\"run.failed\",\"data\":{\"errorMessage\":\"boom\"}}'')),
        (RunFeed, Line (Some ''''))]) = Some (Some (True, True))"
  using every_exit_closes_both_streams
    [where post = post_two_runs and space_id = "''s1''" and content = "''hi''"
       and entity_id = None and metadata = None
       and result = "JObj [(''runs'', JArr [JObj [(''runId'', JStr ''r1'')],
                                            JObj [(''runId'', JStr ''r2'')]])]"
       and runs = "JArr [JObj [(''runId'', JStr ''r1'')], JObj [(''runId'', JStr ''r2'')]]"
       and ?run0.0 = "JObj [(''runId'', JStr ''r1'')]" and run_id = "JStr ''r1''"
       and fmt = sample_fmt and json_loads = sample_loads and http = sample_http
       and timeout = default_timeout and script = "[]"]
    every_exit_closes_both_streams
    [where post = post_two_runs and space_id = "''s1''" and content = "''hi''"
       and entity_id = None and metadata = None
       and result = "JObj [(''runs'', JArr [JObj [(''runId'', JStr ''r1'')],
                                            JObj [(''runId'', JStr ''r2'')]])]"
       and runs = "JArr [JObj [(''runId'', JStr ''r1'')], JObj [(''runId'', JStr ''r2'')]]"
       and ?run0.0 = "JObj [(''runId'', JStr ''r1'')]" and run_id = "JStr ''r1''"
       and fmt = sample_fmt and json_loads = sample_loads and http = sample_http
       and timeout = default_timeout
       and script = "[(RunFeed, ConnectOk),
          (RunFeed, Line (Some
             ''data: {\"type\":\"run.failed\",\"data\":{\"errorMessage\":\"boom\"}}'')),
          (RunFeed, Line (Some ''''))]"]
  by (simp add: eval_defs)

text \<open>
  C9: when the send returns a falsy list of runs (empty, or the key missing), the call
  returns the empty result at once: no stream object is constructed, the wait is not
  entered, and whatever the network would have delivered plays no part.
\<close>

theorem no_runs_returns_at_once:
  assumes "send post space_id content entity_id metadata None None = Inr result"
    and "py_get_default result ''runs'' (JArr []) = Inr runs"
    and "\<not> truthy runs"
  shows "send_and_wait fmt json_loads post http space_id content entity_id metadata
             timeout script =
           Some \<lparr>outcome = Inr (JObj [(''text'', JStr ''''), (''tool_calls'', JArr []),
                                      (''run'', JNull)]),
                 streams = None, correlation = None\<rparr>"
  using assms by (simp add: send_and_wait_def)

theorem no_runs_returns_at_once_witness:
  "send_and_wait sample_fmt sample_loads post_no_runs sample_http ''s1'' ''hi''
     None None default_timeout [(RunFeed, ConnectOk), (SpaceFeed, ConnectOk)] =
     Some \<lparr>outcome = Inr (JObj [(''text'', JStr ''''), (''tool_calls'', JArr []),
                                (''run'', JNull)]),
           streams = None, correlation = None\<rparr>"
  using no_runs_returns_at_once
    [where post = post_no_runs and space_id = "''s1''" and content = "''hi''"
       and entity_id = None and metadata = None
       and result = "JObj [(''message'', JObj []), (''runs'', JArr [])]"
       and runs = "JArr []"
       and fmt = sample_fmt and json_loads = sample_loads and http = sample_http
       and timeout = default_timeout
       and script = "[(RunFeed, ConnectOk), (SpaceFeed, ConnectOk)]"]
  by (simp add: send_def post_no_runs_def dict_get_default_def)

section \<open>Settlement\<close>

lemma settled_is_final:
  "settled c \<Longrightarrow> snd (settling_listener fmt run_id k event c) = c"
  by (cases k)
     (simp_all add: on_run_completed_def on_run_failed_def on_agent_inactive_def
        on_error_event_def finish_def split: sum.splits)

lemma invocations_settled:
  "settled c \<Longrightarrow> invocations fmt run_id calls c = replicate (Suc (length calls)) c"
  by (induction calls) (auto simp: settled_is_final)

lemma flips_replicate: "flips (replicate n b) = 0"
proof (induction n)
  case 0
  then show ?case by simp
next
  case (Suc n)
  then show ?case by (cases n) simp_all
qed

lemma flips_invocations: "flips (map settled (invocations fmt run_id calls c)) \<le> 1"
proof (induction calls arbitrary: c)
  case Nil
  then show ?case by simp
next
  case (Cons call calls)
  obtain k event where call: "call = (k, event)" by (cases call)
  let ?c' = "snd (settling_listener fmt run_id k event c)"
  obtain rest where inv: "invocations fmt run_id calls ?c' = ?c' # rest"
    by (cases calls) auto
  show ?case
  proof (cases "settled ?c'")
    case True
    then have "invocations fmt run_id calls ?c' = replicate (Suc (length calls)) ?c'"
      by (rule invocations_settled)
    then have "flips (map settled (invocations fmt run_id calls ?c')) = 0"
      by (simp only: map_replicate flips_replicate)
    with inv call show ?thesis by simp
  next
    case False
    with Cons.IH [of ?c'] inv call show ?thesis by simp
  qed
qed

text \<open>
  C2: over any sequence of invocations of the settling listeners (run.completed,
  run.failed, agent.inactive, stream error), on any events and from any state, the
  settled flag goes from false to true at most once; from a settled state every
  further invocation leaves all the variables of the wait as they are, so the first
  settling event alone decides the outcome. In particular a run.failed event carrying
  the error message \<^verbatim>\<open>boom\<close> settles a fresh wait with that error, a run.completed
  event after it changes nothing, and the wait raises \<^verbatim>\<open>RuntimeError\<close> with the
  message \<^verbatim>\<open>boom\<close>.
\<close>

theorem settles_at_most_once:
  "flips (map settled (invocations fmt run_id calls c)) \<le> 1 \<and>
   (settled c \<longrightarrow> invocations fmt run_id calls c = replicate (Suc (length calls)) c) \<and>
   (dict_get failed_event ''data'' = JObj [(''errorMessage'', JStr ''boom'')] \<longrightarrow>
      invocations fmt run_id [(RunFailed, failed_event), (RunCompleted, completed_event)]
        new_corr =
        [new_corr,
         new_corr\<lparr>done_event := True, error_holder := [(''error'', JStr ''boom'')],
                  settled := True\<rparr>,
         new_corr\<lparr>done_event := True, error_holder := [(''error'', JStr ''boom'')],
                  settled := True\<rparr>] \<and>
      wait_outcome fmt run_id timeout
        (last (invocations fmt run_id
           [(RunFailed, failed_event), (RunCompleted, completed_event)] new_corr))
        = Inl (RuntimeError ''boom''))"
  using flips_invocations [of fmt run_id calls c] invocations_settled [of c fmt run_id calls]
  by (simp add: on_run_failed_def on_run_completed_def finish_def new_corr_def py_or_def
      dict_get_default_def wait_outcome_def)

theorem settles_at_most_once_witness:
  "flips (map settled (invocations sample_fmt (JStr ''r1'')
      [(RunFailed, [(''type'', JStr ''run.failed''),
                    (''data'', JObj [(''errorMessage'', JStr ''boom'')])]),
       (RunCompleted, [(''type'', JStr ''run.completed'')]),
       (StreamError, [(''type'', JStr ''error'')]),
       (AgentInactive, [(''type'', JStr ''agent.inactive''), (''runId'', JStr ''r1'')])]
      new_corr)) = 1 \<and>
   invocations sample_fmt (JStr ''r1'')
      [(RunCompleted, [(''type'', JStr ''run.completed'')]),
       (StreamError, [(''type'', JStr ''error'')])]
      (new_corr\<lparr>done_event := True, error_holder := [(''error'', JStr ''boom'')],
                settled := True\<rparr>) =
     replicate 3 (new_corr\<lparr>done_event := True, error_holder := [(''error'', JStr ''boom'')],
                settled := True\<rparr>) \<and>
   wait_outcome sample_fmt (JStr ''r1'') 30
     (last (invocations sample_fmt (JStr ''r1'')
        [(RunFailed, [(''type'', JStr ''run.failed''),
                      (''data'', JObj [(''errorMessage'', JStr ''boom'')])]),
         (RunCompleted, [(''type'', JStr ''run.completed'')])] new_corr))
     = Inl (RuntimeError ''boom'')"
  using settles_at_most_once
    [where fmt = sample_fmt and run_id = "JStr ''r1''" and timeout = 30
       and calls = "[(RunCompleted, [(''type'', JStr ''run.completed'')]),
                     (StreamError, [(''type'', JStr ''error'')])]"
       and c = "new_corr\<lparr>done_event := True, error_holder := [(''error'', JStr ''boom'')],
                settled := True\<rparr>"
       and failed_event = "[(''type'', JStr ''run.failed''),
                            (''data'', JObj [(''errorMessage'', JStr ''boom'')])]"
       and completed_event = "[(''type'', JStr ''run.completed'')]"]
  by (simp add: on_run_failed_def on_run_completed_def on_error_event_def
      on_agent_inactive_def finish_def new_corr_def py_or_def dict_get_def
      dict_get_default_def wait_outcome_def numeral_3_eq_3)


section \<open>Which run is waited for\<close>

text \<open>The other three listeners touch neither the flag, nor the event, nor the error.\<close>

lemma other_listeners_leave_settlement:
  "settled (snd (on_space_message event c)) = settled c \<and>
   done_event (snd (on_space_message event c)) = done_event c \<and>
   error_holder (snd (on_space_message event c)) = error_holder c \<and>
   settled (snd (on_tool_started fmt event c)) = settled c \<and>
   done_event (snd (on_tool_started fmt event c)) = done_event c \<and>
   error_holder (snd (on_tool_started fmt event c)) = error_holder c \<and>
   settled (snd (on_tool_done fmt event c)) = settled c \<and>
   done_event (snd (on_tool_done fmt event c)) = done_event c \<and>
   error_holder (snd (on_tool_done fmt event c)) = error_holder c"
  by (simp add: on_space_message_def on_tool_started_def on_tool_done_def Let_def
      split: sum.splits option.splits)

text \<open>
  Inside a list or a dict the same NaN object equals itself; compared directly it does
  not.
\<close>

lemma nan_equality:
  "\<not> py_eq (JFloat (NaN 0)) (JFloat (NaN 0)) \<and>
   py_eq (JArr [JFloat (NaN 0)]) (JArr [JFloat (NaN 0)]) \<and>
   \<not> py_eq (JArr [JFloat (NaN 0)]) (JArr [JFloat (NaN 1)]) \<and>
   py_eq (JObj [(''a'', JFloat (NaN 0)), (''b'', JInt 1)])
         (JObj [(''b'', JBool True), (''a'', JFloat (NaN 0))])"
  by simp





section \<open>The streams of a wait do not reconnect\<close>

lemma returned_is_final:
  "thread st = Returned \<Longrightarrow> run_steps jl fns inputs (st, s) = Some (st, s)"
  by (induction inputs) (simp_all add: run_step_def)

lemma failure_without_reconnect:
  assumes "\<not> reconnect st" and "on_error st = None" and "\<not> stream_closed st"
    and "is_Exception e"
  shows "handle_exception e (st, s) = (st\<lparr>thread := Returned\<rparr>, s)"
  using assms by (simp add: handle_exception_def)

text \<open>
  C1, as the spec has it: both streams of a wait are opened with reconnection enabled,
  and a transport failure is retried with backoff. Both are constructed with
  \<^verbatim>\<open>reconnect=False\<close>: after one failed connection attempt the thread of the run
  stream has returned without sleeping, and neither the clock nor a server that is up
  again brings it back.
\<close>

theorem wait_streams_reconnect_counterexample:
  "reconnect (space_stream_for sample_http ''s1'') = False \<and>
   reconnect (run_stream_for sample_fmt sample_http (JStr ''r1'')) = False \<and>
   run_steps sample_loads (wait_callables sample_fmt (JStr ''r1''))
     [ConnectFails (ConnectionError ''down''), Slept, ConnectOk]
     (start (run_stream_for sample_fmt sample_http (JStr ''r1'')), new_corr) =
     Some ((start (run_stream_for sample_fmt sample_http (JStr ''r1'')))\<lparr>thread := Returned\<rparr>,
           new_corr) \<and>
   sleeps (start (run_stream_for sample_fmt sample_http (JStr ''r1''))) = []"
  by (simp add: eval_defs)

text \<open>
  C1, amended: both streams of a wait are opened with reconnection disabled. At any
  point of the wait, a transport failure on either stream, while connecting or while
  reading, makes the thread of that stream return at once, with no sleep and no
  retry, leaving the other stream and the variables of the wait as they are; once it
  has returned, no further input changes that stream.
\<close>

theorem wait_streams_end_at_first_failure:
  assumes "deliver_all json_loads (wait_callables fmt run_id) script
             (start (space_stream_for http space_id),
              start (run_stream_for fmt http run_id), new_corr) = Some (sp, rn, c)"
    and "is_Exception e"
  shows "\<not> reconnect (space_stream_for http space_id) \<and>
         \<not> reconnect (run_stream_for fmt http run_id) \<and>
         \<not> reconnect sp \<and> \<not> reconnect rn \<and>
         (thread sp = Connecting \<longrightarrow>
            deliver json_loads fns (SpaceFeed, ConnectFails e) (sp, rn, c) =
              Some (sp\<lparr>thread := Returned\<rparr>, rn, c)) \<and>
         (\<forall>current. thread sp = Reading current \<longrightarrow>
            deliver json_loads fns (SpaceFeed, ReadFails e) (sp, rn, c) =
              Some (sp\<lparr>thread := Returned\<rparr>, rn, c)) \<and>
         (thread rn = Connecting \<longrightarrow>
            deliver json_loads fns (RunFeed, ConnectFails e) (sp, rn, c) =
              Some (sp, rn\<lparr>thread := Returned\<rparr>, c)) \<and>
         (\<forall>current. thread rn = Reading current \<longrightarrow>
            deliver json_loads fns (RunFeed, ReadFails e) (sp, rn, c) =
              Some (sp, rn\<lparr>thread := Returned\<rparr>, c)) \<and>
         (\<forall>inputs c'. run_steps json_loads fns inputs (sp\<lparr>thread := Returned\<rparr>, c') =
              Some (sp\<lparr>thread := Returned\<rparr>, c') \<and>
            run_steps json_loads fns inputs (rn\<lparr>thread := Returned\<rparr>, c') =
              Some (rn\<lparr>thread := Returned\<rparr>, c'))"
proof -
  have q: "\<forall>n event s. snd (snd (wait_callables fmt run_id n event s)) = []"
    by (simp add: wait_callables_quiet)
  from deliver_all_quiet [OF q, of json_loads script "start (space_stream_for http space_id)"
      "start (run_stream_for fmt http run_id)" new_corr] assms(1)
  have sp: "\<not> reconnect sp" "on_error sp = None" "\<not> stream_closed sp"
    and rn: "\<not> reconnect rn" "on_error rn = None" "\<not> stream_closed rn"
    by (simp_all add: same_config_def wait_streams_config)
  have init: "\<not> reconnect (space_stream_for http space_id)"
    "\<not> reconnect (run_stream_for fmt http run_id)"
    by (simp_all add: space_stream_for_def run_stream_for_def stream_on_def SSEStream_def)
  have fs: "handle_exception e (sp, c) = (sp\<lparr>thread := Returned\<rparr>, c)"
    using sp assms(2) by (rule failure_without_reconnect)
  have fr: "handle_exception e (rn, c) = (rn\<lparr>thread := Returned\<rparr>, c)"
    using rn assms(2) by (rule failure_without_reconnect)
  have fin: "\<forall>inputs c'. run_steps json_loads fns inputs (sp\<lparr>thread := Returned\<rparr>, c') =
              Some (sp\<lparr>thread := Returned\<rparr>, c') \<and>
            run_steps json_loads fns inputs (rn\<lparr>thread := Returned\<rparr>, c') =
              Some (rn\<lparr>thread := Returned\<rparr>, c')"
    by (simp add: returned_is_final)
  show ?thesis
    using sp(1) rn(1) init fs fr fin
    by (simp add: deliver_def run_step_def)
qed

theorem wait_streams_end_at_first_failure_witness:
  "deliver sample_loads (wait_callables sample_fmt (JStr ''r1''))
     (RunFeed, ConnectFails (ConnectionError ''down''))
     (start (space_stream_for sample_http ''s1''),
      start (run_stream_for sample_fmt sample_http (JStr ''r1'')), new_corr) =
     Some (start (space_stream_for sample_http ''s1''),
      (start (run_stream_for sample_fmt sample_http (JStr ''r1'')))\<lparr>thread := Returned\<rparr>,
      new_corr) \<and>
   deliver sample_loads (wait_callables sample_fmt (JStr ''r1''))
     (SpaceFeed, ConnectFails (ConnectionError ''down''))
     (start (space_stream_for sample_http ''s1''),
      start (run_stream_for sample_fmt sample_http (JStr ''r1'')), new_corr) =
     Some ((start (space_stream_for sample_http ''s1''))\<lparr>thread := Returned\<rparr>,
      start (run_stream_for sample_fmt sample_http (JStr ''r1'')),
      new_corr) \<and>
   thread (start (run_stream_for sample_fmt sample_http (JStr ''r1''))) = Connecting \<and>
   sleeps (start (run_stream_for sample_fmt sample_http (JStr ''r1''))) = []"
  using wait_streams_end_at_first_failure
    [where json_loads = sample_loads and script = "[]" and fmt = sample_fmt
       and http = sample_http and space_id = "''s1''" and run_id = "JStr ''r1''"
       and sp = "start (space_stream_for sample_http ''s1'')"
       and rn = "start (run_stream_for sample_fmt sample_http (JStr ''r1''))"
       and c = new_corr and e = "ConnectionError ''down''"
       and fns = "wait_callables sample_fmt (JStr ''r1'')"]
  by (simp add: eval_defs)


end
